theory Spec2Isabelle
  imports Main
begin

section \<open>Python values used by refresh\_extract.py\<close>

text \<open>
  The script is read as a Python 3 program: \<open>/\<close> on integers is true division,
  \<open>math.ceil\<close> returns an integer, a \<open>str\<close> is a sequence of Unicode code points.
  An exception is a value \<open>Inl e\<close> of the result; every function of the script returns
  \<open>pyerror + 'a\<close>.

  A Python \<open>str\<close> is a sequence of Unicode code points; a \<open>bytes\<close> object is a
  sequence of numbers below 256. Both are lists of naturals here. \<open>lit\<close> embeds a
  literal of the source (all of them are ASCII).
\<close>

type_synonym ustring = "nat list"

type_synonym bytes = "nat list"

definition lit :: "string \<Rightarrow> ustring" where
  "lit s = map of_char s"

text \<open>
  The exceptions that the script can raise. \<open>ApiCallError\<close> is the class of the
  source; the others are Python's own. \<open>LookupError\<close> is what the resolvers raise when
  nothing matches; \<open>AttributeError\<close> is what \<open>None.get(...)\<close> raises.
\<close>

datatype pyerror =
    ApiCallError ustring
  | LookupError ustring
  | AttributeError
  | TypeError
  | ValueError
  | OverflowError
  | ZeroDivisionError
  | UnicodeDecodeError
  | ParseError
  | ConnectionError

definition and_then :: "pyerror + 'a \<Rightarrow> ('a \<Rightarrow> pyerror + 'b) \<Rightarrow> pyerror + 'b" where
  "and_then r k = (case r of Inl e \<Rightarrow> Inl e | Inr v \<Rightarrow> k v)"

text \<open>\<open>'{0}'.format(x)\<close> for a value that is a \<open>str\<close> or \<open>None\<close>.\<close>

definition py_str :: "ustring option \<Rightarrow> ustring" where
  "py_str v = (case v of None \<Rightarrow> lit ''None'' | Some s \<Rightarrow> s)"

text \<open>\<open>str(n)\<close> for an integer: the decimal digits, with a minus sign if negative.\<close>

fun digits :: "nat \<Rightarrow> ustring" where
  "digits n = (if n < 10 then [48 + n] else digits (n div 10) @ [48 + n mod 10])"

definition str_int :: "int \<Rightarrow> ustring" where
  "str_int i = (if i < 0 then 45 # digits (nat (- i)) else digits (nat i))"

section \<open>xml.etree.ElementTree\<close>

text \<open>
  An element has a tag (in Clark notation, \<open>{namespace}local\<close>, when it is in a
  namespace), a dictionary of attributes, an optional text and its children in document
  order.
\<close>

datatype xml =
  Element (tag: ustring) (attrib: "(ustring \<times> ustring) list")
    (elem_text: "ustring option") (children: "xml list")

text \<open>
  \<open>xmlns = {'t': 'http://tableau.com/api'}\<close>: the path \<open>t:name\<close> stands for the tag
  \<open>{http://tableau.com/api}name\<close>.
\<close>

definition xmlns_t :: "ustring \<Rightarrow> ustring" where
  "xmlns_t name = lit ''{http://tableau.com/api}'' @ name"

text \<open>
  The two path shapes the script uses: \<open>'t:name'\<close> selects among the children of the
  element, \<open>'.//t:name'\<close> among all its descendants, in document order (the element
  itself is never selected).
\<close>

datatype path = Child ustring | Descendant ustring

fun descendants :: "xml \<Rightarrow> xml list" where
  "descendants (Element t a x cs) = concat (map (\<lambda>c. c # descendants c) cs)"

fun ET_findall :: "xml \<Rightarrow> path \<Rightarrow> xml list" where
  "ET_findall e (Child name) = filter (\<lambda>c. tag c = xmlns_t name) (children e)"
| "ET_findall e (Descendant name) = filter (\<lambda>c. tag c = xmlns_t name) (descendants e)"

definition ET_find :: "xml \<Rightarrow> path \<Rightarrow> xml option" where
  "ET_find e p = (case ET_findall e p of [] \<Rightarrow> None | x # _ \<Rightarrow> Some x)"

text \<open>\<open>element.get(key)\<close>: the attribute, or \<open>None\<close>.\<close>

definition ET_get :: "xml \<Rightarrow> ustring \<Rightarrow> ustring option" where
  "ET_get e key = map_of (attrib e) key"

section \<open>The world outside the script\<close>

text \<open>
  The script talks to the server through \<open>requests.get\<close> and \<open>requests.post\<close>,
  parses with \<open>ET.fromstring\<close>, serialises with \<open>ET.tostring\<close>, reads a number with
  \<open>int(...)\<close> and takes \<open>VERSION\<close> from a module that is not part of the
  repository. They are parameters of the model: every theorem holds for every server,
  parser and version string.
\<close>

datatype http_method = GET | POST

record request =
  req_method :: http_method
  req_url :: ustring
  req_headers :: "(ustring \<times> ustring option) list"
  req_data :: "bytes option"

record response =
  status_code :: int
  resp_text :: ustring

record world =
  VERSION :: ustring
  requests :: "request \<Rightarrow> pyerror + response"
  fromstring :: "ustring \<Rightarrow> pyerror + xml"
  tostring :: "xml \<Rightarrow> bytes"
  int_of_str :: "ustring \<Rightarrow> pyerror + int"

definition requests_get :: "world \<Rightarrow> ustring \<Rightarrow> (ustring \<times> ustring option) list
    \<Rightarrow> pyerror + response" where
  "requests_get w u hs = requests w \<lparr>req_method = GET, req_url = u, req_headers = hs, req_data = None\<rparr>"

definition requests_post :: "world \<Rightarrow> ustring \<Rightarrow> bytes option
    \<Rightarrow> (ustring \<times> ustring option) list \<Rightarrow> pyerror + response" where
  "requests_post w u d hs = requests w \<lparr>req_method = POST, req_url = u, req_headers = hs, req_data = d\<rparr>"

text \<open>\<open>int(x)\<close> where \<open>x\<close> is a \<open>str\<close> or \<open>None\<close>: \<open>int(None)\<close> is a TypeError.\<close>

definition py_int :: "world \<Rightarrow> ustring option \<Rightarrow> pyerror + int" where
  "py_int w v = (case v of None \<Rightarrow> Inl TypeError | Some s \<Rightarrow> int_of_str w s)"

section \<open>\_encode\_for\_display\<close>

text \<open>
  \<open>text.encode('ascii', errors="backslashreplace")\<close>: a code point below 128 is its own
  byte; any other becomes \<open>\xhh\<close>, \<open>\uhhhh\<close> or \<open>\Uhhhhhhhh\<close> with lower-case
  hexadecimal digits, according to its size.
\<close>

definition hexdigit :: "nat \<Rightarrow> nat" where
  "hexdigit d = (if d < 10 then 48 + d else 87 + d)"

fun hex_fixed :: "nat \<Rightarrow> nat \<Rightarrow> bytes" where
  "hex_fixed 0 c = []"
| "hex_fixed (Suc n) c = hex_fixed n (c div 16) @ [hexdigit (c mod 16)]"

definition backslashreplace :: "nat \<Rightarrow> bytes" where
  "backslashreplace c =
     (if c < 256 then [92, 120] @ hex_fixed 2 c
      else if c < 65536 then [92, 117] @ hex_fixed 4 c
      else [92, 85] @ hex_fixed 8 c)"

definition encode_ascii :: "ustring \<Rightarrow> bytes" where
  "encode_ascii s = concat (map (\<lambda>c. if c < 128 then [c] else backslashreplace c) s)"

text \<open>
  \<open>bytes.decode('utf-8')\<close>, strict: one to four bytes per code point, no overlong forms,
  no surrogates, nothing above U+10FFFF; anything else is a UnicodeDecodeError.
\<close>

definition cont :: "nat \<Rightarrow> bool" where
  "cont b = (128 \<le> b \<and> b < 192)"

definition emit :: "nat \<Rightarrow> pyerror + ustring \<Rightarrow> pyerror + ustring" where
  "emit c r = (case r of Inl e \<Rightarrow> Inl e | Inr s \<Rightarrow> Inr (c # s))"

fun decode_utf8 :: "bytes \<Rightarrow> pyerror + ustring" where
  "decode_utf8 [] = Inr []"
| "decode_utf8 (b0 # rest) =
     (if b0 < 128 then emit b0 (decode_utf8 rest)
      else if 194 \<le> b0 \<and> b0 < 224 then
        (case rest of
           b1 # r1 \<Rightarrow>
             if cont b1 then emit ((b0 - 192) * 64 + (b1 - 128)) (decode_utf8 r1)
             else Inl UnicodeDecodeError
         | _ \<Rightarrow> Inl UnicodeDecodeError)
      else if 224 \<le> b0 \<and> b0 < 240 then
        (case rest of
           b1 # b2 # r2 \<Rightarrow>
             if cont b1 \<and> cont b2 \<and> (b0 = 224 \<longrightarrow> 160 \<le> b1) \<and> (b0 = 237 \<longrightarrow> b1 < 160)
             then emit ((b0 - 224) * 4096 + (b1 - 128) * 64 + (b2 - 128)) (decode_utf8 r2)
             else Inl UnicodeDecodeError
         | _ \<Rightarrow> Inl UnicodeDecodeError)
      else if 240 \<le> b0 \<and> b0 < 245 then
        (case rest of
           b1 # b2 # b3 # r3 \<Rightarrow>
             if cont b1 \<and> cont b2 \<and> cont b3 \<and> (b0 = 240 \<longrightarrow> 144 \<le> b1)
                \<and> (b0 = 244 \<longrightarrow> b1 < 144)
             then emit ((b0 - 240) * 262144 + (b1 - 128) * 4096 + (b2 - 128) * 64 + (b3 - 128))
                    (decode_utf8 r3)
             else Inl UnicodeDecodeError
         | _ \<Rightarrow> Inl UnicodeDecodeError)
      else Inl UnicodeDecodeError)"

definition encode_for_display :: "ustring \<Rightarrow> pyerror + ustring" where
  "encode_for_display text_in = decode_utf8 (encode_ascii text_in)"

section \<open>\_check\_status\<close>

definition check_status :: "world \<Rightarrow> response \<Rightarrow> int \<Rightarrow> pyerror + unit" where
  "check_status w server_response success_code =
     (if status_code server_response \<noteq> success_code then
        and_then (fromstring w (resp_text server_response)) (\<lambda>parsed_response.
          let error_element = ET_find parsed_response (Child (lit ''error''));
              summary_element = ET_find parsed_response (Descendant (lit ''summary''));
              detail_element = ET_find parsed_response (Descendant (lit ''detail''));
              code = (case error_element of
                        None \<Rightarrow> lit ''unknown code''
                      | Some e \<Rightarrow> (case ET_get e (lit ''code'') of
                                    None \<Rightarrow> lit ''unknown'' | Some c \<Rightarrow> c));
              summary = (case summary_element of
                           None \<Rightarrow> Some (lit ''unknown summary'')
                         | Some s \<Rightarrow> elem_text s);
              detail = (case detail_element of
                          None \<Rightarrow> Some (lit ''unknown detail'')
                        | Some d \<Rightarrow> elem_text d);
              error_message = code @ lit '': '' @ py_str summary @ lit '' - '' @ py_str detail
          in Inl (ApiCallError error_message))
      else Inr ())"

section \<open>Sign in and sign out\<close>

definition auth_header :: "ustring option \<Rightarrow> (ustring \<times> ustring option) list" where
  "auth_header auth_token = [(lit ''x-tableau-auth'', auth_token)]"

definition sign_in :: "world \<Rightarrow> ustring \<Rightarrow> ustring \<Rightarrow> ustring \<Rightarrow> ustring
    \<Rightarrow> pyerror + (ustring option \<times> ustring option \<times> ustring option)" where
  "sign_in w server username password site =
     (let url = server @ lit ''/api/'' @ VERSION w @ lit ''/auth/signin'';
          credentials_element =
            Element (lit ''credentials'')
              [(lit ''name'', username), (lit ''password'', password)] None
              [Element (lit ''site'') [(lit ''contentUrl'', site)] None []];
          xml_request = tostring w (Element (lit ''tsRequest'') [] None [credentials_element])
      in and_then (requests_post w url (Some xml_request) []) (\<lambda>server_response.
         and_then (check_status w server_response 200) (\<lambda>_.
         and_then (encode_for_display (resp_text server_response)) (\<lambda>server_response.
         and_then (fromstring w server_response) (\<lambda>parsed_response.
         and_then (case ET_find parsed_response (Child (lit ''credentials'')) of
                     None \<Rightarrow> Inl AttributeError
                   | Some c \<Rightarrow> Inr (ET_get c (lit ''token''))) (\<lambda>token.
         and_then (case ET_find parsed_response (Descendant (lit ''site'')) of
                     None \<Rightarrow> Inl AttributeError
                   | Some s \<Rightarrow> Inr (ET_get s (lit ''id''))) (\<lambda>site_id.
         and_then (case ET_find parsed_response (Descendant (lit ''user'')) of
                     None \<Rightarrow> Inl AttributeError
                   | Some u \<Rightarrow> Inr (ET_get u (lit ''id''))) (\<lambda>user_id.
         Inr (token, site_id, user_id)))))))))"

definition sign_out :: "world \<Rightarrow> ustring \<Rightarrow> ustring option \<Rightarrow> pyerror + unit" where
  "sign_out w server auth_token =
     (let url = server @ lit ''/api/'' @ VERSION w @ lit ''/auth/signout''
      in and_then (requests_post w url None (auth_header auth_token)) (\<lambda>server_response.
         check_status w server_response 204))"

section \<open>The resolvers\<close>

text \<open>
  Each resolver GETs a listing, checks the status, sanitises and parses the body, and
  scans the elements in document order. The \<open>for\<close> loop with its \<open>return\<close> is a
  recursion over the list; falling out of the loop raises the LookupError.
\<close>

definition fetch_xml :: "world \<Rightarrow> ustring \<Rightarrow> ustring option \<Rightarrow> pyerror + xml" where
  "fetch_xml w url auth_token =
     and_then (requests_get w url (auth_header auth_token)) (\<lambda>server_response.
     and_then (check_status w server_response 200) (\<lambda>_.
     and_then (encode_for_display (resp_text server_response)) (\<lambda>sanitized.
     fromstring w sanitized)))"

fun workbook_loop :: "xml list \<Rightarrow> ustring option \<Rightarrow> ustring \<Rightarrow> pyerror + ustring option" where
  "workbook_loop [] project_id workbook_name =
     Inl (LookupError (lit ''Workbook named '' @ [39] @ workbook_name @ [39] @ lit '' not found.''))"
| "workbook_loop (workbook # workbooks) project_id workbook_name =
     (if ET_get workbook (lit ''name'') = Some workbook_name then
        (case ET_find workbook (Descendant (lit ''project'')) of
           None \<Rightarrow> Inl AttributeError
         | Some p \<Rightarrow>
             if ET_get p (lit ''id'') = project_id then Inr (ET_get workbook (lit ''id''))
             else workbook_loop workbooks project_id workbook_name)
      else workbook_loop workbooks project_id workbook_name)"

definition get_workbook_id :: "world \<Rightarrow> ustring \<Rightarrow> ustring option \<Rightarrow> ustring option
    \<Rightarrow> ustring option \<Rightarrow> ustring option \<Rightarrow> ustring \<Rightarrow> pyerror + ustring option" where
  "get_workbook_id w server auth_token user_id site_id project_id workbook_name =
     (let url = server @ lit ''/api/'' @ VERSION w @ lit ''/sites/'' @ py_str site_id
                @ lit ''/users/'' @ py_str user_id @ lit ''/workbooks''
      in and_then (fetch_xml w url auth_token) (\<lambda>xml_response.
         workbook_loop (ET_findall xml_response (Descendant (lit ''workbook'')))
           project_id workbook_name))"

fun datasource_loop :: "xml list \<Rightarrow> ustring option \<Rightarrow> ustring \<Rightarrow> pyerror + ustring option" where
  "datasource_loop [] project_id datasource_name =
     Inl (LookupError
       (lit ''Datasource named '' @ [39] @ datasource_name @ [39] @ lit '' not found.''))"
| "datasource_loop (datasource # datasources) project_id datasource_name =
     (if ET_get datasource (lit ''name'') = Some datasource_name then
        (case ET_find datasource (Descendant (lit ''project'')) of
           None \<Rightarrow> Inl AttributeError
         | Some p \<Rightarrow>
             if ET_get p (lit ''id'') = project_id then Inr (ET_get datasource (lit ''id''))
             else datasource_loop datasources project_id datasource_name)
      else datasource_loop datasources project_id datasource_name)"

definition get_datasource_id :: "world \<Rightarrow> ustring \<Rightarrow> ustring option \<Rightarrow> ustring option
    \<Rightarrow> ustring option \<Rightarrow> ustring \<Rightarrow> pyerror + ustring option" where
  "get_datasource_id w server auth_token site_id project_id datasource_name =
     (let url = server @ lit ''/api/'' @ VERSION w @ lit ''/sites/'' @ py_str site_id
                @ lit ''/datasources''
      in and_then (fetch_xml w url auth_token) (\<lambda>xml_response.
         datasource_loop (ET_findall xml_response (Descendant (lit ''datasource'')))
           project_id datasource_name))"

subsection \<open>Projects: the paginated listing\<close>

text \<open>
  \<open>total_projects / page_size\<close> is Python 3's true division of two integers: the
  IEEE 754 double nearest to the exact quotient (ties to even), an OverflowError when that
  is beyond the doubles, a ZeroDivisionError for a zero divisor. A finite double is the
  pair \<open>(m, e)\<close> of an integer mantissa and an exponent, standing for \<open>m * 2 ^ e\<close>.
  \<open>bit_length\<close> is Python's \<open>int.bit_length\<close>.
\<close>

fun bit_length :: "nat \<Rightarrow> nat" where
  "bit_length n = (if n = 0 then 0 else Suc (bit_length (n div 2)))"

text \<open>The integer nearest to \<open>n / d\<close> for \<open>d > 0\<close>, ties to the even one.\<close>

definition round_half_even :: "int \<Rightarrow> int \<Rightarrow> int" where
  "round_half_even n d =
     (let q = n div d; r = n mod d
      in if 2 * r < d then q else if d < 2 * r then q + 1
         else if even q then q else q + 1)"

text \<open>
  \<open>floor_log2 n d\<close> is the integer \<open>k\<close> with \<open>2 ^ k \<le> n / d < 2 ^ (k + 1)\<close>,
  for positive \<open>n\<close> and \<open>d\<close>.
\<close>

definition floor_log2 :: "nat \<Rightarrow> nat \<Rightarrow> int" where
  "floor_log2 n d =
     (let k = int (bit_length n) - int (bit_length d)
      in if d * 2 ^ nat k \<le> n * 2 ^ nat (- k) then k else k - 1)"

definition int_true_divide :: "int \<Rightarrow> int \<Rightarrow> pyerror + (int \<times> int)" where
  "int_true_divide a b =
     (if b = 0 then Inl ZeroDivisionError
      else if a = 0 then Inr (0, 0)
      else
        let n = nat \<bar>a\<bar>; d = nat \<bar>b\<bar>;
            e = max (floor_log2 n d - 52) (- 1074);
            m = round_half_even (int n * 2 ^ nat (- e)) (int d * 2 ^ nat e)
        in if 971 < e \<or> (e = 971 \<and> 2 ^ 53 \<le> m) then Inl OverflowError
           else Inr (sgn a * sgn b * m, e))"

text \<open>\<open>math.ceil\<close> of a finite double, as an integer.\<close>

definition math_ceil :: "int \<times> int \<Rightarrow> int" where
  "math_ceil x = (case x of (m, e) \<Rightarrow>
     if 0 \<le> e then m * 2 ^ nat e else - ((- m) div 2 ^ nat (- e)))"

definition max_page_of :: "int \<Rightarrow> int \<Rightarrow> pyerror + int" where
  "max_page_of total_projects page_size =
     and_then (int_true_divide total_projects page_size) (\<lambda>x. Inr (math_ceil x))"

definition paged_url :: "ustring \<Rightarrow> int \<Rightarrow> int \<Rightarrow> ustring" where
  "paged_url url page_size page_num =
     url @ lit ''?pageSize='' @ str_int page_size @ lit ''&pageNumber='' @ str_int page_num"

fun more_projects :: "world \<Rightarrow> ustring \<Rightarrow> ustring option \<Rightarrow> int \<Rightarrow> int list \<Rightarrow> xml list
    \<Rightarrow> pyerror + xml list" where
  "more_projects w url auth_token page_size [] projects = Inr projects"
| "more_projects w url auth_token page_size (page # pages) projects =
     and_then (fetch_xml w (paged_url url page_size page) auth_token) (\<lambda>xml_response.
       more_projects w url auth_token page_size pages
         (projects @ ET_findall xml_response (Descendant (lit ''project''))))"

fun project_loop :: "xml list \<Rightarrow> ustring \<Rightarrow> pyerror + ustring option" where
  "project_loop [] dest_project =
     Inl (LookupError
       (lit ''Project named '' @ [39] @ dest_project @ [39] @ lit '' was not found on server''))"
| "project_loop (project # projects) dest_project =
     (if ET_get project (lit ''name'') = Some dest_project then Inr (ET_get project (lit ''id''))
      else project_loop projects dest_project)"

text \<open>
  The project elements that the scan runs over: those of page 1, then those of the pages
  \<open>range(2, max_page + 1)\<close> in that order.
\<close>

definition all_projects :: "world \<Rightarrow> ustring \<Rightarrow> ustring option \<Rightarrow> ustring option
    \<Rightarrow> pyerror + xml list" where
  "all_projects w server auth_token site_id =
     (let page_num = 1; page_size = 100;
          url = server @ lit ''/api/'' @ VERSION w @ lit ''/sites/'' @ py_str site_id
                @ lit ''/projects''
      in and_then (fetch_xml w (paged_url url page_size page_num) auth_token) (\<lambda>xml_response.
         and_then (case ET_find xml_response (Child (lit ''pagination'')) of
                     None \<Rightarrow> Inl AttributeError
                   | Some p \<Rightarrow> py_int w (ET_get p (lit ''totalAvailable''))) (\<lambda>total_projects.
         and_then (max_page_of total_projects page_size) (\<lambda>max_page.
         more_projects w url auth_token page_size [2..max_page]
           (ET_findall xml_response (Descendant (lit ''project'')))))))"

definition get_project_id :: "world \<Rightarrow> ustring \<Rightarrow> ustring option \<Rightarrow> ustring option \<Rightarrow> ustring
    \<Rightarrow> pyerror + ustring option" where
  "get_project_id w server auth_token site_id dest_project =
     and_then (all_projects w server auth_token site_id) (\<lambda>projects.
       project_loop projects dest_project)"

subsection \<open>Schedules and extract-refresh tasks\<close>

fun schedule_loop :: "xml list \<Rightarrow> ustring \<Rightarrow> pyerror + ustring option" where
  "schedule_loop [] schedule_name =
     Inl (LookupError (lit ''Schedule named '' @ [39] @ schedule_name @ [39] @ lit '' not found.''))"
| "schedule_loop (schedule # schedules) schedule_name =
     (if ET_get schedule (lit ''name'') = Some schedule_name
      then Inr (ET_get schedule (lit ''id''))
      else schedule_loop schedules schedule_name)"

definition get_schedule_id :: "world \<Rightarrow> ustring \<Rightarrow> ustring option \<Rightarrow> ustring
    \<Rightarrow> pyerror + ustring option" where
  "get_schedule_id w server auth_token schedule_name =
     (let url = server @ lit ''/api/'' @ VERSION w @ lit ''/schedules''
      in and_then (fetch_xml w url auth_token) (\<lambda>xml_response.
         schedule_loop (ET_findall xml_response (Descendant (lit ''schedule''))) schedule_name))"

text \<open>
  The path \<open>".//t:{0}".format(object_type)\<close> is read as the search for the descendants
  with the tag \<open>t:object_type\<close>, which is what it means when \<open>object_type\<close> is a
  plain name such as \<open>workbook\<close> or \<open>datasource\<close>.
  In the task loop the three \<open>find\<close> calls never fail; the condition
  \<open>obj is not None and schedule.get('id') == schedule_id and obj.get('id') == object_id\<close>
  is evaluated from left to right, so \<open>schedule\<close> is dereferenced only when \<open>obj\<close> is
  there, and \<open>extractRefresh\<close> only when the whole condition holds.
\<close>

fun task_loop :: "xml list \<Rightarrow> ustring option \<Rightarrow> ustring \<Rightarrow> ustring option
    \<Rightarrow> pyerror + ustring option" where
  "task_loop [] schedule_id object_type object_id =
     Inl (LookupError
       (lit ''Extract with schedule_id '' @ [39] @ py_str schedule_id @ [39]
        @ lit '' and object_id '' @ [39] @ py_str object_id @ [39] @ lit '' not found.''))"
| "task_loop (task # tasks) schedule_id object_type object_id =
     (let schedule = ET_find task (Descendant (lit ''schedule''));
          obj = ET_find task (Descendant object_type);
          extractRefresh = ET_find task (Descendant (lit ''extractRefresh''))
      in case obj of
           None \<Rightarrow> task_loop tasks schedule_id object_type object_id
         | Some ob \<Rightarrow>
             (case schedule of
                None \<Rightarrow> Inl AttributeError
              | Some sch \<Rightarrow>
                  if ET_get sch (lit ''id'') = schedule_id \<and> ET_get ob (lit ''id'') = object_id
                  then (case extractRefresh of
                          None \<Rightarrow> Inl AttributeError
                        | Some er \<Rightarrow> Inr (ET_get er (lit ''id'')))
                  else task_loop tasks schedule_id object_type object_id))"

definition get_extract_refresh_id :: "world \<Rightarrow> ustring \<Rightarrow> ustring option \<Rightarrow> ustring option
    \<Rightarrow> ustring option \<Rightarrow> ustring \<Rightarrow> ustring option \<Rightarrow> pyerror + ustring option" where
  "get_extract_refresh_id w server auth_token site_id schedule_id object_type object_id =
     (let url = server @ lit ''/api/'' @ VERSION w @ lit ''/sites/'' @ py_str site_id
                @ lit ''/tasks/extractRefreshes''
      in and_then (fetch_xml w url auth_token) (\<lambda>xml_response.
         task_loop (ET_findall xml_response (Descendant (lit ''task'')))
           schedule_id object_type object_id))"

section \<open>Running the task\<close>

definition run_extract_refresh_task :: "world \<Rightarrow> ustring \<Rightarrow> ustring option \<Rightarrow> ustring option
    \<Rightarrow> ustring option \<Rightarrow> pyerror + ustring option" where
  "run_extract_refresh_task w server auth_token site_id extract_refresh_id =
     (let url = server @ lit ''/api/'' @ VERSION w @ lit ''/sites/'' @ py_str site_id
                @ lit ''/tasks/extractRefreshes/'' @ py_str extract_refresh_id @ lit ''/runNow'';
          xml_request = tostring w (Element (lit ''tsRequest'') [] None [])
      in and_then (requests_post w url (Some xml_request) (auth_header auth_token))
           (\<lambda>server_response.
         and_then (check_status w server_response 200) (\<lambda>_.
         and_then (encode_for_display (resp_text server_response)) (\<lambda>server_response.
         and_then (fromstring w server_response) (\<lambda>parsed_response.
         case ET_find parsed_response (Descendant (lit ''job'')) of
           None \<Rightarrow> Inl AttributeError
         | Some j \<Rightarrow> Inr (ET_get j (lit ''id'')))))))"

section \<open>main\<close>

text \<open>
  \<open>main\<close> calls the functions one after the other; an exception of any of them leaves
  \<open>main\<close> at once (there is no \<open>try\<close> in the script). The model returns, beside the
  outcome, the list of the functions that were called, in order. What \<open>main\<close> prints is
  left out.
\<close>

datatype call =
    SignIn | GetProjectId | GetDatasourceId | GetWorkbookId | GetScheduleId
  | GetExtractRefreshId | RunExtractRefreshTask | SignOut

definition invoke :: "call \<Rightarrow> pyerror + 'a \<Rightarrow> ('a \<Rightarrow> call list \<times> (pyerror + 'b))
    \<Rightarrow> call list \<times> (pyerror + 'b)" where
  "invoke c r k =
     (case r of
        Inl e \<Rightarrow> ([c], Inl e)
      | Inr v \<Rightarrow> (case k v of (cs, res) \<Rightarrow> (c # cs, res)))"

definition argv_or_defaults :: "ustring list
    \<Rightarrow> ustring \<times> ustring \<times> ustring \<times> ustring \<times> ustring \<times> ustring \<times> ustring \<times> ustring" where
  "argv_or_defaults argv =
     (case argv of
        [prog, a1, a2, a3, a4, a5, a6, a7, a8] \<Rightarrow> (a1, a2, a3, a4, a5, a6, a7, a8)
      | _ \<Rightarrow> (lit ''http://localhost'', lit ''admin'', lit ''admin'', [], lit ''Default'',
              lit ''workbook'', lit ''Book1'', lit ''End of the month''))"

definition main :: "world \<Rightarrow> ustring list \<Rightarrow> call list \<times> (pyerror + unit)" where
  "main w argv =
     (case argv_or_defaults argv of
        (server, server_username, password, site, project_name, object_type, object_name,
         schedule_name) \<Rightarrow>
     invoke SignIn (sign_in w server server_username password site)
       (\<lambda>(auth_token, site_id, user_id).
     invoke GetProjectId (get_project_id w server auth_token site_id project_name)
       (\<lambda>project_id.
     (if object_type = lit ''datasource''
      then invoke GetDatasourceId
             (get_datasource_id w server auth_token site_id project_id object_name)
      else invoke GetWorkbookId
             (get_workbook_id w server auth_token user_id site_id project_id object_name))
       (\<lambda>object_id.
     invoke GetScheduleId (get_schedule_id w server auth_token schedule_name)
       (\<lambda>schedule_id.
     invoke GetExtractRefreshId
       (get_extract_refresh_id w server auth_token site_id schedule_id object_type object_id)
       (\<lambda>extract_refresh_id.
     invoke RunExtractRefreshTask
       (run_extract_refresh_task w server auth_token site_id extract_refresh_id)
       (\<lambda>job_id.
     invoke SignOut (sign_out w server auth_token)
       (\<lambda>_. ([], Inr ())))))))))"

section \<open>Example servers and documents\<close>

text \<open>
  Concrete worlds for the examples below: a server that answers from a table of URLs
  (and refuses the connection for any other), a parser that knows a table of documents
  (and rejects any other text), and a reader of plain decimal numbers.
\<close>

definition table_parser :: "(ustring \<times> xml) list \<Rightarrow> ustring \<Rightarrow> pyerror + xml" where
  "table_parser docs s = (case map_of docs s of None \<Rightarrow> Inl ParseError | Some x \<Rightarrow> Inr x)"

definition table_server :: "(ustring \<times> response) list \<Rightarrow> request \<Rightarrow> pyerror + response" where
  "table_server pages req =
     (case map_of pages (req_url req) of None \<Rightarrow> Inl ConnectionError | Some r \<Rightarrow> Inr r)"

definition decimal :: "ustring \<Rightarrow> pyerror + int" where
  "decimal s =
     (if s \<noteq> [] \<and> list_all (\<lambda>c. 48 \<le> c \<and> c \<le> 57) s
      then Inr (foldl (\<lambda>a c. 10 * a + (int c - 48)) 0 s) else Inl ValueError)"

definition example_world :: "(ustring \<times> response) list \<Rightarrow> (ustring \<times> xml) list \<Rightarrow> world" where
  "example_world pages docs =
     \<lparr>VERSION = lit ''3.4'', requests = table_server pages, fromstring = table_parser docs,
      tostring = (\<lambda>_. []), int_of_str = decimal\<rparr>"

definition node :: "string \<Rightarrow> (string \<times> string) list \<Rightarrow> xml list \<Rightarrow> xml" where
  "node name attrs cs =
     Element (xmlns_t (lit name)) (map (\<lambda>(k, v). (lit k, lit v)) attrs) None cs"

definition text_node :: "string \<Rightarrow> string \<Rightarrow> xml" where
  "text_node name s = Element (xmlns_t (lit name)) [] (Some (lit s)) []"

definition error_envelope :: xml where
  "error_envelope =
     node ''tsResponse'' []
       [node ''error'' [(''code'', ''400006'')]
          [text_node ''summary'' ''Invalid...'', text_node ''detail'' ''Login failed'']]"

definition error_envelope_no_detail :: xml where
  "error_envelope_no_detail =
     node ''tsResponse'' []
       [node ''error'' [(''code'', ''400006'')] [text_node ''summary'' ''Invalid...'']]"

text \<open>
  A parser that rejects every text with a code point from 128 on, and returns a fixed
  document for any other text.
\<close>

definition ascii_only_parser :: "xml \<Rightarrow> ustring \<Rightarrow> pyerror + xml" where
  "ascii_only_parser doc s = (if list_all (\<lambda>c. c < 128) s then Inr doc else Inl ParseError)"

definition ascii_only_world :: "(ustring \<times> response) list \<Rightarrow> world" where
  "ascii_only_world pages =
     (example_world pages []) \<lparr>fromstring := ascii_only_parser error_envelope\<rparr>"

text \<open>
  A parser that accepts every text and returns an envelope whose \<open>detail\<close> element
  carries the very text it was given: the message of the ApiCallError then shows which
  text reached the parser.
\<close>

definition echo_parser :: "ustring \<Rightarrow> pyerror + xml" where
  "echo_parser s =
     Inr (Element (xmlns_t (lit ''tsResponse'')) [] None
            [Element (xmlns_t (lit ''detail'')) [] (Some s) []])"

definition echo_world :: world where
  "echo_world = (example_world [] []) \<lparr>fromstring := echo_parser\<rparr>"

definition signin_url :: ustring where
  "signin_url = lit ''http://localhost/api/3.4/auth/signin''"

definition empty_response_doc :: xml where
  "empty_response_doc = node ''tsResponse'' [] []"

definition signin_doc :: xml where
  "signin_doc =
     node ''tsResponse'' []
       [node ''credentials'' [(''token'', ''tok1'')]
          [node ''site'' [(''id'', ''site1'')] [], node ''user'' [(''id'', ''user1'')] []]]"

text \<open>
  A small site: two pages of projects (the server announces 101 of them), two workbooks
  and two data sources named \<open>Book1\<close> in different projects, two schedules of the
  same name, two extract-refresh tasks for the same schedule and workbook.
\<close>

definition ok :: "string \<Rightarrow> response" where
  "ok s = \<lparr>status_code = 200, resp_text = lit s\<rparr>"

definition projects_page1 :: xml where
  "projects_page1 =
     node ''tsResponse'' []
       [node ''pagination'' [(''pageNumber'', ''1''), (''pageSize'', ''100''),
                              (''totalAvailable'', ''101'')] [],
        node ''projects'' []
          [node ''project'' [(''id'', ''p1''), (''name'', ''Default'')] [],
           node ''project'' [(''id'', ''p2''), (''name'', ''Sales'')] []]]"

definition projects_page2 :: xml where
  "projects_page2 =
     node ''tsResponse'' []
       [node ''pagination'' [(''pageNumber'', ''2''), (''pageSize'', ''100''),
                              (''totalAvailable'', ''101'')] [],
        node ''projects'' []
          [node ''project'' [(''id'', ''p3''), (''name'', ''Sales'')] []]]"

definition workbooks_doc :: xml where
  "workbooks_doc =
     node ''tsResponse'' []
       [node ''workbooks'' []
          [node ''workbook'' [(''id'', ''w1''), (''name'', ''Book1'')]
             [node ''project'' [(''id'', ''p1'')] []],
           node ''workbook'' [(''id'', ''w2''), (''name'', ''Book1'')]
             [node ''project'' [(''id'', ''p2'')] []]]]"

definition datasources_doc :: xml where
  "datasources_doc =
     node ''tsResponse'' []
       [node ''datasources'' []
          [node ''datasource'' [(''id'', ''d1''), (''name'', ''Book1'')]
             [node ''project'' [(''id'', ''p1'')] []],
           node ''datasource'' [(''id'', ''d2''), (''name'', ''Book1'')]
             [node ''project'' [(''id'', ''p2'')] []]]]"

definition schedules_doc :: xml where
  "schedules_doc =
     node ''tsResponse'' []
       [node ''schedules'' []
          [node ''schedule'' [(''id'', ''s1''), (''name'', ''End of the month'')] [],
           node ''schedule'' [(''id'', ''s2''), (''name'', ''End of the month'')] []]]"

definition task_A :: xml where
  "task_A =
     node ''task'' []
       [node ''extractRefresh'' [(''id'', ''e1'')] [],
        node ''schedule'' [(''id'', ''s1'')] [],
        node ''workbook'' [(''id'', ''w1'')] []]"

definition task_B :: xml where
  "task_B =
     node ''task'' []
       [node ''extractRefresh'' [(''id'', ''e2'')] [],
        node ''schedule'' [(''id'', ''s1'')] [],
        node ''workbook'' [(''id'', ''w1'')] []]"

definition tasks_doc :: xml where
  "tasks_doc = node ''tsResponse'' [] [node ''tasks'' [] [task_A, task_B]]"

definition job_doc :: xml where
  "job_doc = node ''tsResponse'' [] [node ''job'' [(''id'', ''j1'')] []]"

definition example_docs :: "(ustring \<times> xml) list" where
  "example_docs =
     [(lit ''S1'', signin_doc), (lit ''P1'', projects_page1), (lit ''P2'', projects_page2),
      (lit ''W'', workbooks_doc), (lit ''D'', datasources_doc), (lit ''SC'', schedules_doc),
      (lit ''T'', tasks_doc), (lit ''J'', job_doc)]"

definition example_pages :: "(ustring \<times> response) list" where
  "example_pages =
     [(lit ''http://localhost/api/3.4/auth/signin'', ok ''S1''),
      (lit ''http://localhost/api/3.4/sites/site1/projects?pageSize=100&pageNumber=1'', ok ''P1''),
      (lit ''http://localhost/api/3.4/sites/site1/projects?pageSize=100&pageNumber=2'', ok ''P2''),
      (lit ''http://localhost/api/3.4/sites/site1/users/user1/workbooks'', ok ''W''),
      (lit ''http://localhost/api/3.4/sites/site1/datasources'', ok ''D''),
      (lit ''http://localhost/api/3.4/schedules'', ok ''SC''),
      (lit ''http://localhost/api/3.4/sites/site1/tasks/extractRefreshes'', ok ''T''),
      (lit ''http://localhost/api/3.4/sites/site1/tasks/extractRefreshes/e1/runNow'', ok ''J''),
      (lit ''http://localhost/api/3.4/auth/signout'', \<lparr>status_code = 204, resp_text = []\<rparr>)]"

definition example_site :: world where
  "example_site = example_world example_pages example_docs"

section \<open>The match conditions, as the specification words them\<close>

text \<open>
  An element has the name looked for; a workbook or data source lies in the project
  (its first \<open>project\<close> descendant has the id); a task matches when it has a
  \<open>schedule\<close> element with the schedule id and an element of the object type with the
  object id. \<open>task_aborts\<close> describes the tasks at which the loop of the source
  dereferences \<open>None\<close>.
\<close>

definition named :: "ustring \<Rightarrow> xml \<Rightarrow> bool" where
  "named name x \<longleftrightarrow> ET_get x (lit ''name'') = Some name"

definition in_project :: "ustring option \<Rightarrow> xml \<Rightarrow> bool" where
  "in_project project_id x \<longleftrightarrow>
     (case ET_find x (Descendant (lit ''project'')) of
        None \<Rightarrow> False | Some p \<Rightarrow> ET_get p (lit ''id'') = project_id)"

definition has_child :: "ustring \<Rightarrow> xml \<Rightarrow> bool" where
  "has_child name x \<longleftrightarrow> ET_find x (Descendant name) \<noteq> None"

definition child_id :: "ustring \<Rightarrow> xml \<Rightarrow> ustring option" where
  "child_id name x =
     (case ET_find x (Descendant name) of None \<Rightarrow> None | Some c \<Rightarrow> ET_get c (lit ''id''))"

definition task_matches :: "ustring option \<Rightarrow> ustring \<Rightarrow> ustring option \<Rightarrow> xml \<Rightarrow> bool" where
  "task_matches schedule_id object_type object_id task \<longleftrightarrow>
     has_child (lit ''schedule'') task \<and> child_id (lit ''schedule'') task = schedule_id
     \<and> has_child object_type task \<and> child_id object_type task = object_id"

definition task_aborts :: "ustring option \<Rightarrow> ustring \<Rightarrow> ustring option \<Rightarrow> xml \<Rightarrow> bool" where
  "task_aborts schedule_id object_type object_id task \<longleftrightarrow>
     has_child object_type task
     \<and> (\<not> has_child (lit ''schedule'') task
        \<or> (task_matches schedule_id object_type object_id task
           \<and> \<not> has_child (lit ''extractRefresh'') task))"

text \<open>
  Sites whose task listing holds a single task: one without any child, one with a
  \<open>workbook\<close> child but no \<open>schedule\<close> child.
\<close>

definition tasks_url :: ustring where
  "tasks_url = lit ''http://localhost/api/3.4/sites/site1/tasks/extractRefreshes''"

definition bare_task :: xml where
  "bare_task = node ''task'' [] []"

definition unscheduled_task :: xml where
  "unscheduled_task = node ''task'' [] [node ''workbook'' [(''id'', ''w1'')] []]"

definition one_task_site :: "xml \<Rightarrow> world" where
  "one_task_site task =
     example_world [(tasks_url, ok ''T'')]
       [(lit ''T'', node ''tsResponse'' [] [node ''tasks'' [] [task]])]"

text \<open>
  A task that matches schedule \<open>s1\<close> and workbook \<open>w1\<close> but has no
  \<open>extractRefresh\<close> element, and sites whose task listing holds a given list of tasks.
\<close>

definition no_er_task :: xml where
  "no_er_task =
     node ''task'' []
       [node ''schedule'' [(''id'', ''s1'')] [], node ''workbook'' [(''id'', ''w1'')] []]"

definition tasks_site :: "xml list \<Rightarrow> world" where
  "tasks_site tasks =
     example_world [(tasks_url, ok ''T'')]
       [(lit ''T'', node ''tsResponse'' [] [node ''tasks'' [] tasks])]"

text \<open>A command line that asks for a project the example site does not have.\<close>

definition marketing_argv :: "ustring list" where
  "marketing_argv =
     [lit ''refresh_extract.py'', lit ''http://localhost'', lit ''admin'', lit ''admin'', [],
      lit ''Marketing'', lit ''workbook'', lit ''Book1'', lit ''End of the month'']"

section \<open>Basic facts\<close>

lemma and_then_Inl [simp]: "and_then (Inl e) k = Inl e"
  by (simp add: and_then_def)

lemma and_then_Inr [simp]: "and_then (Inr v) k = k v"
  by (simp add: and_then_def)

lemma lit_eq_iff [simp]: "lit a = lit b \<longleftrightarrow> a = b"
  by (simp add: lit_def inj_map_eq_map inj_of_char)

lemma lit_append: "lit (a @ b) = lit a @ lit b"
  by (simp add: lit_def)

lemma xmlns_t_eq_iff [simp]: "xmlns_t a = xmlns_t b \<longleftrightarrow> a = b"
  by (simp add: xmlns_t_def)

declare ET_findall.simps [simp del]

lemmas xml_eval = ET_find_def ET_findall.simps ET_get_def node_def text_node_def py_str_def

lemma find_SomeD: "find P xs = Some x \<Longrightarrow> x \<in> set xs \<and> P x"
  by (induction xs) (auto split: if_splits)


section \<open>The sanitiser\<close>

lemma hexdigit_ascii: "d < 16 \<Longrightarrow> hexdigit d < 128"
  by (simp add: hexdigit_def)

lemma hex_fixed_ascii: "x \<in> set (hex_fixed n c) \<Longrightarrow> x < 128"
  by (induction n arbitrary: c) (auto simp: hexdigit_ascii)

lemma backslashreplace_ascii: "x \<in> set (backslashreplace c) \<Longrightarrow> x < 128"
  by (auto simp: backslashreplace_def dest: hex_fixed_ascii split: if_splits)

lemma backslashreplace_backslash: "\<exists>r. backslashreplace c = 92 # r"
  by (simp add: backslashreplace_def)

lemma encode_ascii_ascii: "x \<in> set (encode_ascii s) \<Longrightarrow> x < 128"
  by (auto simp: encode_ascii_def dest: backslashreplace_ascii split: if_splits)

lemma encode_ascii_id: "\<forall>c\<in>set s. c < 128 \<Longrightarrow> encode_ascii s = s"
  by (induction s) (auto simp: encode_ascii_def)

lemma decode_utf8_ascii: "\<forall>b\<in>set bs. b < 128 \<Longrightarrow> decode_utf8 bs = Inr bs"
proof (induction bs)
  case Nil
  show ?case by simp
next
  case (Cons b bs)
  then have "b < 128" and "decode_utf8 bs = Inr bs" by simp_all
  then show ?case by (simp add: emit_def)
qed

text \<open>
  The decoding step never fails: the encoder emits bytes below 128 only, and those
  decode to themselves.
\<close>

lemma encode_for_display_eq: "encode_for_display s = Inr (encode_ascii s)"
  unfolding encode_for_display_def
  by (rule decode_utf8_ascii) (auto dest: encode_ascii_ascii)

lemma hex_fixed_numeral:
  "hex_fixed (numeral k) c = hex_fixed (pred_numeral k) (c div 16) @ [hexdigit (c mod 16)]"
proof -
  have "hex_fixed (Suc (pred_numeral k)) c
      = hex_fixed (pred_numeral k) (c div 16) @ [hexdigit (c mod 16)]"
    by (rule hex_fixed.simps(2))
  moreover have "Suc (pred_numeral k) = numeral k"
    by (rule numeral_eq_Suc [symmetric])
  ultimately show ?thesis by (simp only:)
qed

lemmas encode_eval = encode_ascii_def backslashreplace_def hexdigit_def hex_fixed_numeral

lemma encode_ascii_lit:
  "list_all (\<lambda>c. of_char c < (128::nat)) s \<Longrightarrow> encode_ascii (lit s) = lit s"
  by (rule encode_ascii_id) (simp add: lit_def list_all_iff)

lemmas world_eval = example_world_def table_server_def table_parser_def requests_get_def
  requests_post_def auth_header_def

lemma check_status_ok [simp]: "status_code r = c \<Longrightarrow> check_status w r c = Inr ()"
  by (simp add: check_status_def)

lemma check_status_parse_error:
  "status_code r \<noteq> c \<Longrightarrow> fromstring w (resp_text r) = Inl e \<Longrightarrow> check_status w r c = Inl e"
  by (simp add: check_status_def)

lemma check_status_api_error:
  "status_code r \<noteq> c \<Longrightarrow> fromstring w (resp_text r) = Inr env
    \<Longrightarrow> \<exists>msg. check_status w r c = Inl (ApiCallError msg)"
  by (simp add: check_status_def Let_def)

lemma fetch_xml_ok:
  "requests_get w u (auth_header tok) = Inr r \<Longrightarrow> status_code r = 200
    \<Longrightarrow> fetch_xml w u tok = fromstring w (encode_ascii (resp_text r))"
  by (simp add: fetch_xml_def encode_for_display_eq)

text \<open>
  C10: \<open>_encode_for_display\<close> is the identity on ASCII input: a string of code points
  below 128 comes back unchanged. For every input it returns (it never raises) a string
  of code points below 128 only, which is the input with each code point from 128 on
  replaced by its placeholder; and every placeholder starts with a backslash (code 92).
\<close>

theorem encode_for_display_ascii_identity:
  "((\<forall>c\<in>set s. c < 128) \<longrightarrow> encode_for_display s = Inr s)
   \<and> (\<exists>out. encode_for_display s = Inr out
          \<and> (\<forall>c\<in>set out. c < 128)
          \<and> out = concat (map (\<lambda>c. if c < 128 then [c] else backslashreplace c) s))
   \<and> (\<forall>c. \<exists>r. backslashreplace c = 92 # r)"
proof (intro conjI impI)
  assume "\<forall>c\<in>set s. c < 128"
  then show "encode_for_display s = Inr s"
    by (simp add: encode_for_display_eq encode_ascii_id)
next
  show "\<exists>out. encode_for_display s = Inr out \<and> (\<forall>c\<in>set out. c < 128)
          \<and> out = concat (map (\<lambda>c. if c < 128 then [c] else backslashreplace c) s)"
  proof (intro exI conjI)
    show "encode_for_display s = Inr (encode_ascii s)"
      by (rule encode_for_display_eq)
    show "\<forall>c\<in>set (encode_ascii s). c < 128"
      using encode_ascii_ascii by blast
    show "encode_ascii s = concat (map (\<lambda>c. if c < 128 then [c] else backslashreplace c) s)"
      by (simp add: encode_ascii_def)
  qed
next
  show "\<forall>c. \<exists>r. backslashreplace c = 92 # r"
    by (simp add: backslashreplace_backslash)
qed

text \<open>
  At \<open>Hi\<close> the result is \<open>Hi\<close>; at \<open>H\<close>, U+00E9, U+20AC, U+1F600 the three
  code points from 128 on become the escapes of the forms x, u and U with the digits
  e9, 20ac and 0001f600.
\<close>

theorem encode_for_display_ascii_identity_witness:
  "encode_for_display [72, 105] = Inr [72, 105]
   \<and> encode_for_display [72, 233, 8364, 128512]
       = Inr ([72] @ [92, 120, 101, 57] @ [92, 117, 50, 48, 97, 99]
              @ [92, 85, 48, 48, 48, 49, 102, 54, 48, 48])"
proof -
  have h: "\<forall>c\<in>set [72, 105]. c < (128::nat)" by simp
  have a: "encode_for_display [72, 105] = Inr [72, 105]"
    using encode_for_display_ascii_identity [of "[72, 105]"] h by blast
  have e: "concat (map (\<lambda>c. if c < 128 then [c] else backslashreplace c)
                [72, 233, 8364, 128512])
       = [72] @ [92, 120, 101, 57] @ [92, 117, 50, 48, 97, 99]
              @ [92, 85, 48, 48, 48, 49, 102, 54, 48, 48]"
    by (simp add: encode_eval)
  have b: "encode_for_display [72, 233, 8364, 128512]
       = Inr ([72] @ [92, 120, 101, 57] @ [92, 117, 50, 48, 97, 99]
              @ [92, 85, 48, 48, 48, 49, 102, 54, 48, 48])"
    using encode_for_display_ascii_identity [of "[72, 233, 8364, 128512]"] e by auto
  show ?thesis using a b by blast
qed

section \<open>The status check\<close>

text \<open>
  The error envelope: when the status code of the response differs from the expected one
  and the body parses to an envelope, \<open>_check_status\<close> raises ApiCallError with the message
  \<open>code: summary - detail\<close>, where an absent \<open>error\<close> child gives
  \<open>unknown code\<close>, an absent \<open>summary\<close> gives \<open>unknown summary\<close> and an
  absent \<open>detail\<close> gives \<open>unknown detail\<close>. When the status code is the expected
  one, nothing is raised.
\<close>

theorem check_status_error_envelope:
  "(status_code r \<noteq> expected \<and> fromstring w (resp_text r) = Inr env \<longrightarrow>
      check_status w r expected = Inl (ApiCallError
        ((case ET_find env (Child (lit ''error'')) of
            None \<Rightarrow> lit ''unknown code''
          | Some e \<Rightarrow> (case ET_get e (lit ''code'') of None \<Rightarrow> lit ''unknown'' | Some c \<Rightarrow> c))
         @ lit '': ''
         @ (case ET_find env (Descendant (lit ''summary'')) of
              None \<Rightarrow> lit ''unknown summary'' | Some s \<Rightarrow> py_str (elem_text s))
         @ lit '' - ''
         @ (case ET_find env (Descendant (lit ''detail'')) of
              None \<Rightarrow> lit ''unknown detail'' | Some d \<Rightarrow> py_str (elem_text d)))))
   \<and> (status_code r = expected \<longrightarrow> check_status w r expected = Inr ())"
  by (simp add: check_status_def Let_def py_str_def split: option.splits)

text \<open>
  The examples of the specification: the envelope with code 400006, summary
  \<open>Invalid...\<close> and detail \<open>Login failed\<close>; the same without its detail; a 204
  where 204 is expected.
\<close>

theorem check_status_error_envelope_witness:
  "check_status (example_world [] [(lit ''E1'', error_envelope)])
      \<lparr>status_code = 401, resp_text = lit ''E1''\<rparr> 200
     = Inl (ApiCallError (lit ''400006: Invalid... - Login failed''))
   \<and> check_status (example_world [] [(lit ''E2'', error_envelope_no_detail)])
      \<lparr>status_code = 401, resp_text = lit ''E2''\<rparr> 200
     = Inl (ApiCallError (lit ''400006: Invalid... - unknown detail''))
   \<and> check_status (example_world [] []) \<lparr>status_code = 204, resp_text = []\<rparr> 204 = Inr ()"
proof -
  have a: "check_status (example_world [] [(lit ''E1'', error_envelope)])
      \<lparr>status_code = 401, resp_text = lit ''E1''\<rparr> 200
     = Inl (ApiCallError (lit ''400006: Invalid... - Login failed''))"
    using check_status_error_envelope
      [of "\<lparr>status_code = 401, resp_text = lit ''E1''\<rparr>" 200
          "example_world [] [(lit ''E1'', error_envelope)]" error_envelope]
    by (simp add: example_world_def table_parser_def error_envelope_def xml_eval
        lit_append [symmetric])
  have b: "check_status (example_world [] [(lit ''E2'', error_envelope_no_detail)])
      \<lparr>status_code = 401, resp_text = lit ''E2''\<rparr> 200
     = Inl (ApiCallError (lit ''400006: Invalid... - unknown detail''))"
    using check_status_error_envelope
      [of "\<lparr>status_code = 401, resp_text = lit ''E2''\<rparr>" 200
          "example_world [] [(lit ''E2'', error_envelope_no_detail)]" error_envelope_no_detail]
    by (simp add: example_world_def table_parser_def error_envelope_no_detail_def xml_eval
        lit_append [symmetric])
  have c: "check_status (example_world [] []) \<lparr>status_code = 204, resp_text = []\<rparr> 204 = Inr ()"
    using check_status_error_envelope
      [of "\<lparr>status_code = 204, resp_text = []\<rparr>" 204 "example_world [] []"]
    by simp
  show ?thesis using a b c by blast
qed

text \<open>
  C5: a response with a status code other than the expected one whose body is not an XML
  document (the text \<open>Bad Gateway\<close> of a proxy, or an empty body). The parser
  rejects the text, as \<open>ET.fromstring\<close> does with a ParseError, and since
  \<open>_check_status\<close> calls it outside any \<open>try\<close>, that error is what leaves the
  status check: no ApiCallError is raised.
\<close>

theorem check_status_unparseable_body:
  "check_status (example_world [] []) \<lparr>status_code = 502, resp_text = lit ''Bad Gateway''\<rparr> 200
     = Inl ParseError
   \<and> check_status (example_world [] []) \<lparr>status_code = 401, resp_text = []\<rparr> 200
     = Inl ParseError"
  by (simp add: check_status_def example_world_def table_parser_def)

text \<open>
  C7: on a status code other than the expected one, \<open>_check_status\<close> hands the text
  of the response to the parser as it came, without \<open>_encode_for_display\<close>. With a
  parser that rejects code points from 128 on, the body consisting of U+00E9 aborts the
  status check with the parser's error, while the same body under status 200 is sanitised
  by the listing functions and parses. With a parser that echoes its input into the
  \<open>detail\<close> element, the message of the ApiCallError carries the code point 233
  itself, not its escape.
\<close>

theorem check_status_parses_raw_text:
  "check_status (ascii_only_world []) \<lparr>status_code = 401, resp_text = [233]\<rparr> 200
     = Inl ParseError
   \<and> fetch_xml (ascii_only_world [(lit ''u'', \<lparr>status_code = 200, resp_text = [233]\<rparr>)])
       (lit ''u'') None = Inr error_envelope
   \<and> check_status echo_world \<lparr>status_code = 401, resp_text = [233]\<rparr> 200
     = Inl (ApiCallError (lit ''unknown code: unknown summary - '' @ [233]))
   \<and> encode_for_display [233] = Inr [92, 120, 101, 57]"
proof -
  have a: "check_status (ascii_only_world []) \<lparr>status_code = 401, resp_text = [233]\<rparr> 200
     = Inl ParseError"
    by (simp add: check_status_def ascii_only_world_def ascii_only_parser_def world_eval)
  have b: "fetch_xml (ascii_only_world [(lit ''u'', \<lparr>status_code = 200, resp_text = [233]\<rparr>)])
       (lit ''u'') None = Inr error_envelope"
    by (simp add: fetch_xml_def ascii_only_world_def ascii_only_parser_def
        world_eval encode_for_display_eq encode_eval)
  have c: "check_status echo_world \<lparr>status_code = 401, resp_text = [233]\<rparr> 200
     = Inl (ApiCallError (lit ''unknown code: unknown summary - '' @ [233]))"
    by (simp add: check_status_def echo_world_def echo_parser_def example_world_def xml_eval
        lit_append [symmetric])
  have d: "encode_for_display [233] = Inr [92, 120, 101, 57]"
    by (simp add: encode_for_display_eq encode_eval)
  from a b c d show ?thesis by (intro conjI)
qed

section \<open>Signing in\<close>

text \<open>
  C6: as the code has it, \<open>sign_in\<close> POSTs the credentials envelope to the sign-in
  URL. If the answer has a status code other than 200 and its body parses, \<open>sign_in\<close>
  raises ApiCallError. If the status code is 200 and the sanitised body parses, \<open>sign_in\<close>
  returns the \<open>token\<close> attribute of the \<open>credentials\<close> child and the \<open>id\<close>
  attributes of the first \<open>site\<close> and \<open>user\<close> descendants; when one of the three
  elements is missing, it raises AttributeError.
\<close>

theorem sign_in_outcomes:
  assumes "requests w
      \<lparr>req_method = POST,
       req_url = server @ lit ''/api/'' @ VERSION w @ lit ''/auth/signin'',
       req_headers = [],
       req_data = Some (tostring w
         (Element (lit ''tsRequest'') [] None
            [Element (lit ''credentials'')
               [(lit ''name'', username), (lit ''password'', password)] None
               [Element (lit ''site'') [(lit ''contentUrl'', site)] None []]]))\<rparr> = Inr r"
  shows "(status_code r \<noteq> 200 \<and> fromstring w (resp_text r) = Inr env \<longrightarrow>
            (\<exists>msg. sign_in w server username password site = Inl (ApiCallError msg)))
       \<and> (status_code r = 200 \<and> fromstring w (encode_ascii (resp_text r)) = Inr doc \<longrightarrow>
            sign_in w server username password site =
              (case ET_find doc (Child (lit ''credentials'')) of
                 None \<Rightarrow> Inl AttributeError
               | Some c \<Rightarrow>
                  (case ET_find doc (Descendant (lit ''site'')) of
                     None \<Rightarrow> Inl AttributeError
                   | Some s \<Rightarrow>
                      (case ET_find doc (Descendant (lit ''user'')) of
                         None \<Rightarrow> Inl AttributeError
                       | Some u \<Rightarrow>
                          Inr (ET_get c (lit ''token''), ET_get s (lit ''id''),
                               ET_get u (lit ''id''))))))"
proof (intro conjI impI)
  assume a: "status_code r \<noteq> 200 \<and> fromstring w (resp_text r) = Inr env"
  then obtain msg where "check_status w r 200 = Inl (ApiCallError msg)"
    using check_status_api_error by blast
  then show "\<exists>msg. sign_in w server username password site = Inl (ApiCallError msg)"
    using assms by (simp add: sign_in_def requests_post_def Let_def)
next
  assume a: "status_code r = 200 \<and> fromstring w (encode_ascii (resp_text r)) = Inr doc"
  then show "sign_in w server username password site =
              (case ET_find doc (Child (lit ''credentials'')) of
                 None \<Rightarrow> Inl AttributeError
               | Some c \<Rightarrow>
                  (case ET_find doc (Descendant (lit ''site'')) of
                     None \<Rightarrow> Inl AttributeError
                   | Some s \<Rightarrow>
                      (case ET_find doc (Descendant (lit ''user'')) of
                         None \<Rightarrow> Inl AttributeError
                       | Some u \<Rightarrow>
                          Inr (ET_get c (lit ''token''), ET_get s (lit ''id''),
                               ET_get u (lit ''id'')))))"
    using assms
    by (simp add: sign_in_def requests_post_def Let_def encode_for_display_eq
        split: option.splits)
qed

text \<open>
  A 200 response whose document has no \<open>credentials\<close> element: the outcome is an
  AttributeError, not an ApiCallError.
\<close>

theorem sign_in_missing_element:
  "sign_in (example_world [(signin_url, \<lparr>status_code = 200, resp_text = lit ''S0''\<rparr>)]
              [(lit ''S0'', empty_response_doc)])
     (lit ''http://localhost'') (lit ''admin'') (lit ''admin'') [] = Inl AttributeError"
  by (simp add: sign_in_def world_eval signin_url_def lit_append [symmetric]
      encode_for_display_eq encode_ascii_lit empty_response_doc_def xml_eval)

text \<open>A sign-in that succeeds, and one that is refused with status 401.\<close>

theorem sign_in_outcomes_witness:
  "sign_in (example_world [(signin_url, \<lparr>status_code = 200, resp_text = lit ''S1''\<rparr>)]
              [(lit ''S1'', signin_doc)])
     (lit ''http://localhost'') (lit ''admin'') (lit ''admin'') []
     = Inr (Some (lit ''tok1''), Some (lit ''site1''), Some (lit ''user1''))
   \<and> (\<exists>msg. sign_in (example_world [(signin_url, \<lparr>status_code = 401, resp_text = lit ''E1''\<rparr>)]
              [(lit ''E1'', error_envelope)])
     (lit ''http://localhost'') (lit ''admin'') (lit ''admin'') [] = Inl (ApiCallError msg))"
proof -
  have a: "sign_in (example_world [(signin_url, \<lparr>status_code = 200, resp_text = lit ''S1''\<rparr>)]
              [(lit ''S1'', signin_doc)])
     (lit ''http://localhost'') (lit ''admin'') (lit ''admin'') []
     = Inr (Some (lit ''tok1''), Some (lit ''site1''), Some (lit ''user1''))"
    using sign_in_outcomes
      [of "example_world [(signin_url, \<lparr>status_code = 200, resp_text = lit ''S1''\<rparr>)]
              [(lit ''S1'', signin_doc)]"
          "lit ''http://localhost''" "lit ''admin''" "lit ''admin''" "[]"
          "\<lparr>status_code = 200, resp_text = lit ''S1''\<rparr>" undefined signin_doc]
    by (simp add: world_eval signin_url_def lit_append [symmetric] encode_ascii_lit
        signin_doc_def xml_eval)
  have b: "\<exists>msg. sign_in (example_world [(signin_url, \<lparr>status_code = 401, resp_text = lit ''E1''\<rparr>)]
              [(lit ''E1'', error_envelope)])
     (lit ''http://localhost'') (lit ''admin'') (lit ''admin'') [] = Inl (ApiCallError msg)"
    using sign_in_outcomes
      [of "example_world [(signin_url, \<lparr>status_code = 401, resp_text = lit ''E1''\<rparr>)]
              [(lit ''E1'', error_envelope)]"
          "lit ''http://localhost''" "lit ''admin''" "lit ''admin''" "[]"
          "\<lparr>status_code = 401, resp_text = lit ''E1''\<rparr>" error_envelope undefined]
    by (simp add: world_eval signin_url_def lit_append [symmetric])
  show ?thesis using a b by blast
qed

lemmas match_defs = named_def in_project_def has_child_def child_id_def task_matches_def
  task_aborts_def

section \<open>The scanning loops\<close>

lemma project_loop_find:
  "project_loop xs n =
     (case find (named n) xs of
        None \<Rightarrow> Inl (LookupError
          (lit ''Project named '' @ [39] @ n @ [39] @ lit '' was not found on server''))
      | Some x \<Rightarrow> Inr (ET_get x (lit ''id'')))"
  by (induction xs) (simp_all add: named_def)

lemma schedule_loop_find:
  "schedule_loop xs n =
     (case find (named n) xs of
        None \<Rightarrow> Inl (LookupError (lit ''Schedule named '' @ [39] @ n @ [39] @ lit '' not found.''))
      | Some x \<Rightarrow> Inr (ET_get x (lit ''id'')))"
  by (induction xs) (simp_all add: named_def)

lemma workbook_loop_Inr:
  "workbook_loop xs pid n = Inr i
    \<Longrightarrow> \<exists>x. find (\<lambda>x. named n x \<and> in_project pid x) xs = Some x \<and> i = ET_get x (lit ''id'')"
  by (induction xs) (auto simp: named_def in_project_def split: if_splits option.splits)

lemma workbook_loop_find:
  "\<forall>x\<in>set xs. named n x \<longrightarrow> has_child (lit ''project'') x \<Longrightarrow>
   workbook_loop xs pid n =
     (case find (\<lambda>x. named n x \<and> in_project pid x) xs of
        None \<Rightarrow> Inl (LookupError (lit ''Workbook named '' @ [39] @ n @ [39] @ lit '' not found.''))
      | Some x \<Rightarrow> Inr (ET_get x (lit ''id'')))"
  by (induction xs) (auto simp: named_def in_project_def has_child_def split: option.splits)

lemma datasource_loop_Inr:
  "datasource_loop xs pid n = Inr i
    \<Longrightarrow> \<exists>x. find (\<lambda>x. named n x \<and> in_project pid x) xs = Some x \<and> i = ET_get x (lit ''id'')"
  by (induction xs) (auto simp: named_def in_project_def split: if_splits option.splits)

lemma datasource_loop_find:
  "\<forall>x\<in>set xs. named n x \<longrightarrow> has_child (lit ''project'') x \<Longrightarrow>
   datasource_loop xs pid n =
     (case find (\<lambda>x. named n x \<and> in_project pid x) xs of
        None \<Rightarrow> Inl (LookupError (lit ''Datasource named '' @ [39] @ n @ [39] @ lit '' not found.''))
      | Some x \<Rightarrow> Inr (ET_get x (lit ''id'')))"
  by (induction xs) (auto simp: named_def in_project_def has_child_def split: option.splits)

lemma task_loop_Inr:
  "task_loop ts sid ot oid = Inr i
    \<Longrightarrow> \<exists>t. find (task_matches sid ot oid) ts = Some t \<and> has_child (lit ''extractRefresh'') t
          \<and> i = child_id (lit ''extractRefresh'') t"
  by (induction ts) (auto simp: match_defs Let_def split: if_splits option.splits)

lemma task_loop_find:
  "\<forall>t\<in>set ts. has_child ot t \<longrightarrow> has_child (lit ''schedule'') t \<Longrightarrow>
   \<forall>t\<in>set ts. task_matches sid ot oid t \<longrightarrow> has_child (lit ''extractRefresh'') t \<Longrightarrow>
   task_loop ts sid ot oid =
     (case find (task_matches sid ot oid) ts of
        None \<Rightarrow> Inl (LookupError
           (lit ''Extract with schedule_id '' @ [39] @ py_str sid @ [39]
            @ lit '' and object_id '' @ [39] @ py_str oid @ [39] @ lit '' not found.''))
      | Some t \<Rightarrow> Inr (child_id (lit ''extractRefresh'') t))"
  by (induction ts) (auto simp: match_defs Let_def split: option.splits)

lemma task_loop_aborts:
  "task_loop ts sid ot oid = Inl AttributeError \<longleftrightarrow>
     (case find (\<lambda>t. task_aborts sid ot oid t \<or> task_matches sid ot oid t) ts of
        None \<Rightarrow> False | Some t \<Rightarrow> task_aborts sid ot oid t)"
  by (induction ts) (auto simp: match_defs Let_def split: option.splits)


lemma fetch_example:
  "map_of example_pages u = Some (ok s) \<Longrightarrow> list_all (\<lambda>c. of_char c < (128::nat)) s
    \<Longrightarrow> map_of example_docs (lit s) = Some doc
    \<Longrightarrow> fetch_xml example_site u tok = Inr doc"
  by (simp add: fetch_xml_def example_site_def world_eval ok_def encode_for_display_eq
      encode_ascii_lit)

lemma fetch_workbooks:
  "fetch_xml example_site (lit ''http://localhost/api/3.4/sites/site1/users/user1/workbooks'') tok
     = Inr workbooks_doc"
  by (rule fetch_example [where s = "''W''"]) (simp_all add: example_pages_def example_docs_def)

lemma fetch_datasources:
  "fetch_xml example_site (lit ''http://localhost/api/3.4/sites/site1/datasources'') tok
     = Inr datasources_doc"
  by (rule fetch_example [where s = "''D''"]) (simp_all add: example_pages_def example_docs_def)

lemma fetch_schedules:
  "fetch_xml example_site (lit ''http://localhost/api/3.4/schedules'') tok = Inr schedules_doc"
  by (rule fetch_example [where s = "''SC''"]) (simp_all add: example_pages_def example_docs_def)

lemma fetch_tasks:
  "fetch_xml example_site (lit ''http://localhost/api/3.4/sites/site1/tasks/extractRefreshes'') tok
     = Inr tasks_doc"
  by (rule fetch_example [where s = "''T''"]) (simp_all add: example_pages_def example_docs_def)

lemma fetch_page1:
  "fetch_xml example_site
     (lit ''http://localhost/api/3.4/sites/site1/projects?pageSize=100&pageNumber=1'') tok
     = Inr projects_page1"
  by (rule fetch_example [where s = "''P1''"]) (simp_all add: example_pages_def example_docs_def)

lemma fetch_page2:
  "fetch_xml example_site
     (lit ''http://localhost/api/3.4/sites/site1/projects?pageSize=100&pageNumber=2'') tok
     = Inr projects_page2"
  by (rule fetch_example [where s = "''P2''"]) (simp_all add: example_pages_def example_docs_def)

lemma VERSION_example_site: "VERSION example_site = lit ''3.4''"
  by (simp add: example_site_def example_world_def)

lemmas url_eval = VERSION_example_site py_str_def lit_append [symmetric]

section \<open>Workbooks and data sources are scoped to the project\<close>

text \<open>
  C4: an id returned by \<open>get_workbook_id\<close> (or \<open>get_datasource_id\<close>) is the id of
  an element of the listing that has the name looked for and lies in the given project,
  never that of a same-named element in another project; an element with the name but in
  another project is skipped and the scan goes on with the rest. When every element with
  the name has a \<open>project\<close> element, the resolver returns the id of the first element
  with the name in the project, and raises the LookupError when there is none.
\<close>

theorem workbook_scoped_to_project:
  assumes "fetch_xml w (server @ lit ''/api/'' @ VERSION w @ lit ''/sites/'' @ py_str site_id
             @ lit ''/users/'' @ py_str user_id @ lit ''/workbooks'') auth_token = Inr wdoc"
      and "fetch_xml w (server @ lit ''/api/'' @ VERSION w @ lit ''/sites/'' @ py_str site_id
             @ lit ''/datasources'') auth_token = Inr ddoc"
  shows "(\<forall>i. get_workbook_id w server auth_token user_id site_id project_id name = Inr i \<longrightarrow>
            (\<exists>x\<in>set (ET_findall wdoc (Descendant (lit ''workbook''))).
               named name x \<and> in_project project_id x \<and> i = ET_get x (lit ''id'')))
       \<and> (\<forall>i. get_datasource_id w server auth_token site_id project_id name = Inr i \<longrightarrow>
            (\<exists>x\<in>set (ET_findall ddoc (Descendant (lit ''datasource''))).
               named name x \<and> in_project project_id x \<and> i = ET_get x (lit ''id'')))
       \<and> (\<forall>x xs. named name x \<and> has_child (lit ''project'') x \<and> \<not> in_project project_id x \<longrightarrow>
            workbook_loop (x # xs) project_id name = workbook_loop xs project_id name
            \<and> datasource_loop (x # xs) project_id name = datasource_loop xs project_id name)
       \<and> ((\<forall>x\<in>set (ET_findall wdoc (Descendant (lit ''workbook''))).
              named name x \<longrightarrow> has_child (lit ''project'') x) \<longrightarrow>
            get_workbook_id w server auth_token user_id site_id project_id name =
              (case find (\<lambda>x. named name x \<and> in_project project_id x)
                      (ET_findall wdoc (Descendant (lit ''workbook''))) of
                 None \<Rightarrow> Inl (LookupError
                   (lit ''Workbook named '' @ [39] @ name @ [39] @ lit '' not found.''))
               | Some x \<Rightarrow> Inr (ET_get x (lit ''id''))))
       \<and> ((\<forall>x\<in>set (ET_findall ddoc (Descendant (lit ''datasource''))).
              named name x \<longrightarrow> has_child (lit ''project'') x) \<longrightarrow>
            get_datasource_id w server auth_token site_id project_id name =
              (case find (\<lambda>x. named name x \<and> in_project project_id x)
                      (ET_findall ddoc (Descendant (lit ''datasource''))) of
                 None \<Rightarrow> Inl (LookupError
                   (lit ''Datasource named '' @ [39] @ name @ [39] @ lit '' not found.''))
               | Some x \<Rightarrow> Inr (ET_get x (lit ''id''))))"
proof -
  have w: "get_workbook_id w server auth_token user_id site_id project_id name
         = workbook_loop (ET_findall wdoc (Descendant (lit ''workbook''))) project_id name"
    using assms(1) by (simp add: get_workbook_id_def Let_def)
  have d: "get_datasource_id w server auth_token site_id project_id name
         = datasource_loop (ET_findall ddoc (Descendant (lit ''datasource''))) project_id name"
    using assms(2) by (simp add: get_datasource_id_def Let_def)
  have 1: "\<forall>i. get_workbook_id w server auth_token user_id site_id project_id name = Inr i \<longrightarrow>
            (\<exists>x\<in>set (ET_findall wdoc (Descendant (lit ''workbook''))).
               named name x \<and> in_project project_id x \<and> i = ET_get x (lit ''id''))"
    unfolding w
  proof (intro allI impI)
    fix i
    assume "workbook_loop (ET_findall wdoc (Descendant (lit ''workbook''))) project_id name = Inr i"
    from workbook_loop_Inr [OF this] obtain x
      where f: "find (\<lambda>x. named name x \<and> in_project project_id x)
                  (ET_findall wdoc (Descendant (lit ''workbook''))) = Some x"
        and i: "i = ET_get x (lit ''id'')"
      by blast
    from find_SomeD [OF f] i
    show "\<exists>x\<in>set (ET_findall wdoc (Descendant (lit ''workbook''))).
            named name x \<and> in_project project_id x \<and> i = ET_get x (lit ''id'')"
      by blast
  qed
  have 2: "\<forall>i. get_datasource_id w server auth_token site_id project_id name = Inr i \<longrightarrow>
            (\<exists>x\<in>set (ET_findall ddoc (Descendant (lit ''datasource''))).
               named name x \<and> in_project project_id x \<and> i = ET_get x (lit ''id''))"
    unfolding d
  proof (intro allI impI)
    fix i
    assume "datasource_loop (ET_findall ddoc (Descendant (lit ''datasource''))) project_id name
              = Inr i"
    from datasource_loop_Inr [OF this] obtain x
      where f: "find (\<lambda>x. named name x \<and> in_project project_id x)
                  (ET_findall ddoc (Descendant (lit ''datasource''))) = Some x"
        and i: "i = ET_get x (lit ''id'')"
      by blast
    from find_SomeD [OF f] i
    show "\<exists>x\<in>set (ET_findall ddoc (Descendant (lit ''datasource''))).
            named name x \<and> in_project project_id x \<and> i = ET_get x (lit ''id'')"
      by blast
  qed
  have 3: "\<forall>x xs. named name x \<and> has_child (lit ''project'') x \<and> \<not> in_project project_id x \<longrightarrow>
            workbook_loop (x # xs) project_id name = workbook_loop xs project_id name
            \<and> datasource_loop (x # xs) project_id name = datasource_loop xs project_id name"
    by (auto simp: match_defs split: option.splits)
  have 4: "(\<forall>x\<in>set (ET_findall wdoc (Descendant (lit ''workbook''))).
              named name x \<longrightarrow> has_child (lit ''project'') x) \<longrightarrow>
            get_workbook_id w server auth_token user_id site_id project_id name =
              (case find (\<lambda>x. named name x \<and> in_project project_id x)
                      (ET_findall wdoc (Descendant (lit ''workbook''))) of
                 None \<Rightarrow> Inl (LookupError
                   (lit ''Workbook named '' @ [39] @ name @ [39] @ lit '' not found.''))
               | Some x \<Rightarrow> Inr (ET_get x (lit ''id'')))"
    unfolding w by (intro impI, rule workbook_loop_find)
  have 5: "(\<forall>x\<in>set (ET_findall ddoc (Descendant (lit ''datasource''))).
              named name x \<longrightarrow> has_child (lit ''project'') x) \<longrightarrow>
            get_datasource_id w server auth_token site_id project_id name =
              (case find (\<lambda>x. named name x \<and> in_project project_id x)
                      (ET_findall ddoc (Descendant (lit ''datasource''))) of
                 None \<Rightarrow> Inl (LookupError
                   (lit ''Datasource named '' @ [39] @ name @ [39] @ lit '' not found.''))
               | Some x \<Rightarrow> Inr (ET_get x (lit ''id'')))"
    unfolding d by (intro impI, rule datasource_loop_find)
  from 1 2 3 4 5 show ?thesis by (intro conjI)
qed

lemma findall_workbooks:
  "ET_findall workbooks_doc (Descendant (lit ''workbook'')) =
     [node ''workbook'' [(''id'', ''w1''), (''name'', ''Book1'')]
        [node ''project'' [(''id'', ''p1'')] []],
      node ''workbook'' [(''id'', ''w2''), (''name'', ''Book1'')]
        [node ''project'' [(''id'', ''p2'')] []]]"
  by (simp add: workbooks_doc_def node_def ET_findall.simps)

lemma findall_datasources:
  "ET_findall datasources_doc (Descendant (lit ''datasource'')) =
     [node ''datasource'' [(''id'', ''d1''), (''name'', ''Book1'')]
        [node ''project'' [(''id'', ''p1'')] []],
      node ''datasource'' [(''id'', ''d2''), (''name'', ''Book1'')]
        [node ''project'' [(''id'', ''p2'')] []]]"
  by (simp add: datasources_doc_def node_def ET_findall.simps)

text \<open>
  The example of the specification: \<open>Book1\<close> under \<open>p1\<close> and \<open>Book1\<close> under
  \<open>p2\<close>; resolving \<open>Book1\<close> in project \<open>p2\<close> gives the second one.
\<close>

theorem workbook_scoped_to_project_witness:
  "get_workbook_id example_site (lit ''http://localhost'') (Some (lit ''tok1''))
      (Some (lit ''user1'')) (Some (lit ''site1'')) (Some (lit ''p2'')) (lit ''Book1'')
     = Inr (Some (lit ''w2''))
   \<and> get_datasource_id example_site (lit ''http://localhost'') (Some (lit ''tok1''))
      (Some (lit ''site1'')) (Some (lit ''p2'')) (lit ''Book1'')
     = Inr (Some (lit ''d2''))"
proof -
  have f1: "fetch_xml example_site (lit ''http://localhost'' @ lit ''/api/''
      @ VERSION example_site @ lit ''/sites/'' @ py_str (Some (lit ''site1''))
      @ lit ''/users/'' @ py_str (Some (lit ''user1'')) @ lit ''/workbooks'')
      (Some (lit ''tok1'')) = Inr workbooks_doc"
    by (simp add: url_eval fetch_workbooks)
  have f2: "fetch_xml example_site (lit ''http://localhost'' @ lit ''/api/''
      @ VERSION example_site @ lit ''/sites/'' @ py_str (Some (lit ''site1''))
      @ lit ''/datasources'') (Some (lit ''tok1'')) = Inr datasources_doc"
    by (simp add: url_eval fetch_datasources)
  note t = workbook_scoped_to_project [OF f1 f2, of "Some (lit ''p2'')" "lit ''Book1''"]
  have p1: "\<forall>x\<in>set (ET_findall workbooks_doc (Descendant (lit ''workbook''))).
              named (lit ''Book1'') x \<longrightarrow> has_child (lit ''project'') x"
    by (simp only: findall_workbooks) (simp add: match_defs xml_eval)
  have p2: "\<forall>x\<in>set (ET_findall datasources_doc (Descendant (lit ''datasource''))).
              named (lit ''Book1'') x \<longrightarrow> has_child (lit ''project'') x"
    by (simp only: findall_datasources) (simp add: match_defs xml_eval)
  have a: "get_workbook_id example_site (lit ''http://localhost'') (Some (lit ''tok1''))
      (Some (lit ''user1'')) (Some (lit ''site1'')) (Some (lit ''p2'')) (lit ''Book1'')
     = (case find (\<lambda>x. named (lit ''Book1'') x \<and> in_project (Some (lit ''p2'')) x)
                      (ET_findall workbooks_doc (Descendant (lit ''workbook''))) of
                 None \<Rightarrow> Inl (LookupError
                   (lit ''Workbook named '' @ [39] @ lit ''Book1'' @ [39] @ lit '' not found.''))
               | Some x \<Rightarrow> Inr (ET_get x (lit ''id'')))"
    using t p1 by blast
  have b: "get_datasource_id example_site (lit ''http://localhost'') (Some (lit ''tok1''))
      (Some (lit ''site1'')) (Some (lit ''p2'')) (lit ''Book1'')
     = (case find (\<lambda>x. named (lit ''Book1'') x \<and> in_project (Some (lit ''p2'')) x)
                      (ET_findall datasources_doc (Descendant (lit ''datasource''))) of
                 None \<Rightarrow> Inl (LookupError
                   (lit ''Datasource named '' @ [39] @ lit ''Book1'' @ [39] @ lit '' not found.''))
               | Some x \<Rightarrow> Inr (ET_get x (lit ''id'')))"
    using t p2 by blast
  show ?thesis
    unfolding a b findall_workbooks findall_datasources by (simp add: match_defs xml_eval)
qed

section \<open>The extract-refresh task lookup\<close>

lemma fetch_table:
  "map_of pages u = Some (ok s) \<Longrightarrow> list_all (\<lambda>c. of_char c < (128::nat)) s
    \<Longrightarrow> map_of docs (lit s) = Some doc
    \<Longrightarrow> fetch_xml (example_world pages docs) u tok = Inr doc"
  by (simp add: fetch_xml_def world_eval ok_def encode_for_display_eq encode_ascii_lit)

lemma fetch_one_task:
  "fetch_xml (one_task_site task) tasks_url tok
     = Inr (node ''tsResponse'' [] [node ''tasks'' [] [task]])"
  unfolding one_task_site_def by (rule fetch_table [where s = "''T''"]) simp_all

lemma get_extract_refresh_id_scan:
  "fetch_xml w (server @ lit ''/api/'' @ VERSION w @ lit ''/sites/'' @ py_str site_id
             @ lit ''/tasks/extractRefreshes'') auth_token = Inr doc
   \<Longrightarrow> get_extract_refresh_id w server auth_token site_id schedule_id object_type object_id
       = task_loop (ET_findall doc (Descendant (lit ''task''))) schedule_id object_type object_id"
  by (simp add: get_extract_refresh_id_def Let_def)

lemma find_None_iff2: "find P xs = None \<longleftrightarrow> (\<forall>x\<in>set xs. \<not> P x)"
  by (induction xs) auto

lemma find_Some_ex: "(\<exists>x. find P xs = Some x) \<longleftrightarrow> (\<exists>x\<in>set xs. P x)"
  by (induction xs) auto

text \<open>
  C3: as the code has it, for a task listing in which every task that has an element of the
  object type also has a \<open>schedule\<close> element and every matching task has an
  \<open>extractRefresh\<close> element, and for the object type \<open>workbook\<close> or
  \<open>datasource\<close>: \<open>get_extract_refresh_id\<close> returns an id exactly when some
  task has the schedule id in its \<open>schedule\<close> element, has an element of the object
  type, and has the object id there; the id returned is that of the \<open>extractRefresh\<close>
  element of the first such task; when no task matches, it raises the LookupError.
\<close>

theorem extract_refresh_task_lookup:
  assumes "fetch_xml w (server @ lit ''/api/'' @ VERSION w @ lit ''/sites/'' @ py_str site_id
             @ lit ''/tasks/extractRefreshes'') auth_token = Inr doc"
      and "object_type = lit ''workbook'' \<or> object_type = lit ''datasource''"
      and "\<forall>t\<in>set (ET_findall doc (Descendant (lit ''task''))).
             has_child object_type t \<longrightarrow> has_child (lit ''schedule'') t"
      and "\<forall>t\<in>set (ET_findall doc (Descendant (lit ''task''))).
             task_matches schedule_id object_type object_id t
               \<longrightarrow> has_child (lit ''extractRefresh'') t"
  shows "(\<forall>i. get_extract_refresh_id w server auth_token site_id schedule_id object_type object_id
                = Inr i \<longleftrightarrow>
              (\<exists>t. find (task_matches schedule_id object_type object_id)
                       (ET_findall doc (Descendant (lit ''task''))) = Some t
                   \<and> i = child_id (lit ''extractRefresh'') t))
       \<and> ((\<exists>i. get_extract_refresh_id w server auth_token site_id schedule_id object_type
                  object_id = Inr i) \<longleftrightarrow>
            (\<exists>t\<in>set (ET_findall doc (Descendant (lit ''task''))).
               task_matches schedule_id object_type object_id t))
       \<and> ((\<forall>t\<in>set (ET_findall doc (Descendant (lit ''task''))).
              \<not> task_matches schedule_id object_type object_id t) \<longrightarrow>
            get_extract_refresh_id w server auth_token site_id schedule_id object_type object_id
              = Inl (LookupError
                  (lit ''Extract with schedule_id '' @ [39] @ py_str schedule_id @ [39]
                   @ lit '' and object_id '' @ [39] @ py_str object_id @ [39]
                   @ lit '' not found.'')))"
proof -
  let ?ts = "ET_findall doc (Descendant (lit ''task''))"
  let ?P = "task_matches schedule_id object_type object_id"
  have wf: "\<forall>t\<in>set ?ts. has_child object_type t \<longrightarrow> has_child (lit ''schedule'') t"
    by (rule assms(3))
  have eq: "get_extract_refresh_id w server auth_token site_id schedule_id object_type object_id =
     (case find ?P ?ts of
        None \<Rightarrow> Inl (LookupError
           (lit ''Extract with schedule_id '' @ [39] @ py_str schedule_id @ [39]
            @ lit '' and object_id '' @ [39] @ py_str object_id @ [39] @ lit '' not found.''))
      | Some t \<Rightarrow> Inr (child_id (lit ''extractRefresh'') t))"
    unfolding get_extract_refresh_id_scan [OF assms(1)]
    by (rule task_loop_find [OF wf assms(4)])
  have 1: "\<forall>i. get_extract_refresh_id w server auth_token site_id schedule_id object_type object_id
                = Inr i \<longleftrightarrow> (\<exists>t. find ?P ?ts = Some t \<and> i = child_id (lit ''extractRefresh'') t)"
    unfolding eq by (auto split: option.splits)
  have 2: "(\<exists>i. get_extract_refresh_id w server auth_token site_id schedule_id object_type
                  object_id = Inr i) \<longleftrightarrow> (\<exists>t\<in>set ?ts. ?P t)"
    unfolding eq find_Some_ex [symmetric] by (auto split: option.splits)
  have 3: "(\<forall>t\<in>set ?ts. \<not> ?P t) \<longrightarrow>
            get_extract_refresh_id w server auth_token site_id schedule_id object_type object_id
              = Inl (LookupError
                  (lit ''Extract with schedule_id '' @ [39] @ py_str schedule_id @ [39]
                   @ lit '' and object_id '' @ [39] @ py_str object_id @ [39]
                   @ lit '' not found.''))"
    unfolding eq find_None_iff2 [symmetric] by (auto split: option.splits)
  from 1 2 3 show ?thesis by (intro conjI)
qed


text \<open>
  The example of the specification: task A with schedule \<open>s1\<close>, workbook \<open>w1\<close>
  and extractRefresh \<open>e1\<close>. Looking up \<open>(s1, workbook, w1)\<close> gives \<open>e1\<close>;
  looking up \<open>(s1, workbook, w2)\<close> raises the LookupError.
\<close>

lemma findall_tasks: "ET_findall tasks_doc (Descendant (lit ''task'')) = [task_A, task_B]"
  by (simp add: tasks_doc_def task_A_def task_B_def node_def ET_findall.simps)

lemma findall_one_task:
  "tag task = xmlns_t (lit ''task'') \<Longrightarrow>
   filter (\<lambda>c. tag c = xmlns_t (lit ''task'')) (descendants task) = [] \<Longrightarrow>
   ET_findall (node ''tsResponse'' [] [node ''tasks'' [] [task]]) (Descendant (lit ''task''))
     = [task]"
  by (simp add: node_def ET_findall.simps)

lemmas task_eval = task_A_def task_B_def bare_task_def unscheduled_task_def no_er_task_def
  match_defs xml_eval

lemma fetch_tasks_site:
  "fetch_xml (tasks_site tasks) (lit ''http://localhost'' @ lit ''/api/''
      @ VERSION (tasks_site tasks) @ lit ''/sites/'' @ py_str (Some (lit ''site1''))
      @ lit ''/tasks/extractRefreshes'') tok
     = Inr (node ''tsResponse'' [] [node ''tasks'' [] tasks])"
proof -
  have u: "lit ''http://localhost'' @ lit ''/api/''
      @ VERSION (tasks_site tasks) @ lit ''/sites/'' @ py_str (Some (lit ''site1''))
      @ lit ''/tasks/extractRefreshes'' = tasks_url"
    by (simp add: tasks_site_def example_world_def tasks_url_def py_str_def
        lit_append [symmetric])
  have "fetch_xml (tasks_site tasks) tasks_url tok
     = Inr (node ''tsResponse'' [] [node ''tasks'' [] tasks])"
    unfolding tasks_site_def by (rule fetch_table [where s = "''T''"]) simp_all
  then show ?thesis by (simp only: u)
qed

lemma findall_no_er:
  "ET_findall (node ''tsResponse'' [] [node ''tasks'' [] [no_er_task, task_A]])
     (Descendant (lit ''task'')) = [no_er_task, task_A]"
  by (simp add: no_er_task_def task_A_def node_def ET_findall.simps)

lemma findall_mixed:
  "ET_findall (node ''tsResponse'' [] [node ''tasks'' [] [task_A, unscheduled_task]])
     (Descendant (lit ''task'')) = [task_A, unscheduled_task]"
  by (simp add: unscheduled_task_def task_A_def node_def ET_findall.simps)

lemma findall_unscheduled:
  "ET_findall (node ''tsResponse'' [] [node ''tasks'' [] [unscheduled_task]])
     (Descendant (lit ''task'')) = [unscheduled_task]"
  by (simp add: unscheduled_task_def node_def ET_findall.simps)

text \<open>
  Outside that precondition the claim fails. In the listing with the one task that has a
  \<open>workbook\<close> element and no \<open>schedule\<close> element, no task matches, and yet the
  lookup raises AttributeError, not the LookupError. In the listing where task A comes
  after a matching task without an \<open>extractRefresh\<close> element, task A matches and has
  all three elements, and yet no id is returned.
\<close>

theorem lookup_aborts_instead_of_not_found:
  "\<not> task_matches (Some (lit ''s1'')) (lit ''workbook'') (Some (lit ''w1'')) unscheduled_task
   \<and> get_extract_refresh_id (tasks_site [unscheduled_task]) (lit ''http://localhost'')
       (Some (lit ''tok1'')) (Some (lit ''site1'')) (Some (lit ''s1'')) (lit ''workbook'')
       (Some (lit ''w1'')) = Inl AttributeError
   \<and> task_matches (Some (lit ''s1'')) (lit ''workbook'') (Some (lit ''w1'')) task_A
   \<and> has_child (lit ''extractRefresh'') task_A
   \<and> get_extract_refresh_id (tasks_site [no_er_task, task_A]) (lit ''http://localhost'')
       (Some (lit ''tok1'')) (Some (lit ''site1'')) (Some (lit ''s1'')) (lit ''workbook'')
       (Some (lit ''w1'')) = Inl AttributeError"
proof -
  have a: "\<not> task_matches (Some (lit ''s1'')) (lit ''workbook'') (Some (lit ''w1''))
              unscheduled_task"
    by (simp add: task_eval)
  have b: "get_extract_refresh_id (tasks_site [unscheduled_task]) (lit ''http://localhost'')
       (Some (lit ''tok1'')) (Some (lit ''site1'')) (Some (lit ''s1'')) (lit ''workbook'')
       (Some (lit ''w1'')) = Inl AttributeError"
    unfolding get_extract_refresh_id_scan [OF fetch_tasks_site] findall_unscheduled
    by (simp add: task_eval Let_def)
  have c: "task_matches (Some (lit ''s1'')) (lit ''workbook'') (Some (lit ''w1'')) task_A"
    by (simp add: task_eval)
  have d: "has_child (lit ''extractRefresh'') task_A"
    by (simp add: task_eval)
  have e: "get_extract_refresh_id (tasks_site [no_er_task, task_A]) (lit ''http://localhost'')
       (Some (lit ''tok1'')) (Some (lit ''site1'')) (Some (lit ''s1'')) (lit ''workbook'')
       (Some (lit ''w1'')) = Inl AttributeError"
    unfolding get_extract_refresh_id_scan [OF fetch_tasks_site] findall_no_er
    by (simp add: task_eval Let_def)
  from a b c d e show ?thesis by (intro conjI)
qed

theorem extract_refresh_task_lookup_witness:
  "get_extract_refresh_id example_site (lit ''http://localhost'') (Some (lit ''tok1''))
      (Some (lit ''site1'')) (Some (lit ''s1'')) (lit ''workbook'') (Some (lit ''w1''))
     = Inr (Some (lit ''e1''))
   \<and> get_extract_refresh_id example_site (lit ''http://localhost'') (Some (lit ''tok1''))
      (Some (lit ''site1'')) (Some (lit ''s1'')) (lit ''workbook'') (Some (lit ''w2''))
     = Inl (LookupError
         (lit ''Extract with schedule_id '' @ [39] @ lit ''s1'' @ [39]
          @ lit '' and object_id '' @ [39] @ lit ''w2'' @ [39] @ lit '' not found.''))"
proof -
  have f: "fetch_xml example_site (lit ''http://localhost'' @ lit ''/api/''
      @ VERSION example_site @ lit ''/sites/'' @ py_str (Some (lit ''site1''))
      @ lit ''/tasks/extractRefreshes'') (Some (lit ''tok1'')) = Inr tasks_doc"
    by (simp add: url_eval fetch_tasks)
  have ot: "lit ''workbook'' = lit ''workbook'' \<or> lit ''workbook'' = lit ''datasource''"
    by simp
  have wf1: "\<forall>t\<in>set (ET_findall tasks_doc (Descendant (lit ''task''))).
               has_child (lit ''workbook'') t \<longrightarrow> has_child (lit ''schedule'') t"
    unfolding findall_tasks by (simp add: task_eval)
  have wf2: "\<forall>t\<in>set (ET_findall tasks_doc (Descendant (lit ''task''))).
               task_matches (Some (lit ''s1'')) (lit ''workbook'') oid t
                 \<longrightarrow> has_child (lit ''extractRefresh'') t" for oid
    unfolding findall_tasks by (simp add: task_eval)
  note t1 = extract_refresh_task_lookup [OF f ot wf1 wf2, of "Some (lit ''w1'')"]
  note t2 = extract_refresh_task_lookup [OF f ot wf1 wf2, of "Some (lit ''w2'')"]
  have m: "find (task_matches (Some (lit ''s1'')) (lit ''workbook'') (Some (lit ''w1'')))
             (ET_findall tasks_doc (Descendant (lit ''task''))) = Some task_A"
    unfolding findall_tasks by (simp add: task_eval)
  have e: "child_id (lit ''extractRefresh'') task_A = Some (lit ''e1'')"
    by (simp add: task_eval)
  have a: "get_extract_refresh_id example_site (lit ''http://localhost'') (Some (lit ''tok1''))
      (Some (lit ''site1'')) (Some (lit ''s1'')) (lit ''workbook'') (Some (lit ''w1''))
     = Inr (Some (lit ''e1''))"
    using t1 m e by simp
  have n: "\<forall>t\<in>set (ET_findall tasks_doc (Descendant (lit ''task''))).
             \<not> task_matches (Some (lit ''s1'')) (lit ''workbook'') (Some (lit ''w2'')) t"
    unfolding findall_tasks by (simp add: task_eval)
  have b: "get_extract_refresh_id example_site (lit ''http://localhost'') (Some (lit ''tok1''))
      (Some (lit ''site1'')) (Some (lit ''s1'')) (lit ''workbook'') (Some (lit ''w2''))
     = Inl (LookupError
         (lit ''Extract with schedule_id '' @ [39] @ lit ''s1'' @ [39]
          @ lit '' and object_id '' @ [39] @ lit ''w2'' @ [39] @ lit '' not found.''))"
    using t2 n by (simp add: py_str_def)
  from a b show ?thesis by (intro conjI)
qed

lemma task_loop_not_abort:
  "task_loop ts sid ot oid \<noteq> Inl AttributeError \<Longrightarrow>
   task_loop ts sid ot oid =
     (case find (task_matches sid ot oid) ts of
        None \<Rightarrow> Inl (LookupError
           (lit ''Extract with schedule_id '' @ [39] @ py_str sid @ [39]
            @ lit '' and object_id '' @ [39] @ py_str oid @ [39] @ lit '' not found.''))
      | Some t \<Rightarrow> Inr (child_id (lit ''extractRefresh'') t))"
  by (induction ts) (auto simp: match_defs Let_def split: option.splits if_splits)

text \<open>
  C9: as the code has it, in the task loop only the element of the object type is checked
  for presence. The \<open>schedule\<close> element is dereferenced only in a task that has an
  element of the object type, the \<open>extractRefresh\<close> element only in a task that
  matches, and the scan ends at the first match. So the lookup aborts with an
  AttributeError exactly when the first task that either matches or dereferences
  \<open>None\<close> is one that dereferences \<open>None\<close>: it has an element of the object type
  and no \<open>schedule\<close> element, or it matches and has no \<open>extractRefresh\<close> element.
  In every other case the lookup returns the id of the \<open>extractRefresh\<close> element of
  the first matching task, or raises the LookupError when no task matches.
  In particular, when every task has a \<open>schedule\<close> element and every matched task an
  \<open>extractRefresh\<close> element, the lookup returns an id or raises the LookupError.
\<close>

theorem extract_refresh_lookup_abort:
  assumes "fetch_xml w (server @ lit ''/api/'' @ VERSION w @ lit ''/sites/'' @ py_str site_id
             @ lit ''/tasks/extractRefreshes'') auth_token = Inr doc"
  shows "(get_extract_refresh_id w server auth_token site_id schedule_id object_type object_id
            = Inl AttributeError \<longleftrightarrow>
          (case find (\<lambda>t. task_aborts schedule_id object_type object_id t
                          \<or> task_matches schedule_id object_type object_id t)
                  (ET_findall doc (Descendant (lit ''task''))) of
             None \<Rightarrow> False
           | Some t \<Rightarrow> task_aborts schedule_id object_type object_id t))
       \<and> ((\<forall>t\<in>set (ET_findall doc (Descendant (lit ''task''))).
               has_child (lit ''schedule'') t)
          \<and> (\<forall>t\<in>set (ET_findall doc (Descendant (lit ''task''))).
               task_matches schedule_id object_type object_id t
                 \<longrightarrow> has_child (lit ''extractRefresh'') t) \<longrightarrow>
            (\<exists>i. get_extract_refresh_id w server auth_token site_id schedule_id object_type
                   object_id = Inr i)
          \<or> (\<exists>msg. get_extract_refresh_id w server auth_token site_id schedule_id object_type
                   object_id = Inl (LookupError msg)))
       \<and> (get_extract_refresh_id w server auth_token site_id schedule_id object_type object_id
            \<noteq> Inl AttributeError \<longrightarrow>
          get_extract_refresh_id w server auth_token site_id schedule_id object_type object_id =
            (case find (task_matches schedule_id object_type object_id)
                    (ET_findall doc (Descendant (lit ''task''))) of
               None \<Rightarrow> Inl (LookupError
                  (lit ''Extract with schedule_id '' @ [39] @ py_str schedule_id @ [39]
                   @ lit '' and object_id '' @ [39] @ py_str object_id @ [39]
                   @ lit '' not found.''))
             | Some t \<Rightarrow> Inr (child_id (lit ''extractRefresh'') t)))
       \<and> (get_extract_refresh_id w server auth_token site_id schedule_id object_type object_id
            = Inl AttributeError
          \<or> (\<exists>i. get_extract_refresh_id w server auth_token site_id schedule_id object_type
                   object_id = Inr i)
          \<or> get_extract_refresh_id w server auth_token site_id schedule_id object_type object_id
            = Inl (LookupError
                  (lit ''Extract with schedule_id '' @ [39] @ py_str schedule_id @ [39]
                   @ lit '' and object_id '' @ [39] @ py_str object_id @ [39]
                   @ lit '' not found.'')))"
proof -
  let ?ts = "ET_findall doc (Descendant (lit ''task''))"
  note scan = get_extract_refresh_id_scan [OF assms]
  have 1: "get_extract_refresh_id w server auth_token site_id schedule_id object_type object_id
            = Inl AttributeError \<longleftrightarrow>
          (case find (\<lambda>t. task_aborts schedule_id object_type object_id t
                          \<or> task_matches schedule_id object_type object_id t) ?ts of
             None \<Rightarrow> False
           | Some t \<Rightarrow> task_aborts schedule_id object_type object_id t)"
    unfolding scan by (rule task_loop_aborts)
  have 2: "(\<forall>t\<in>set ?ts. has_child (lit ''schedule'') t)
          \<and> (\<forall>t\<in>set ?ts. task_matches schedule_id object_type object_id t
                 \<longrightarrow> has_child (lit ''extractRefresh'') t) \<longrightarrow>
            (\<exists>i. get_extract_refresh_id w server auth_token site_id schedule_id object_type
                   object_id = Inr i)
          \<or> (\<exists>msg. get_extract_refresh_id w server auth_token site_id schedule_id object_type
                   object_id = Inl (LookupError msg))"
  proof
    assume a: "(\<forall>t\<in>set ?ts. has_child (lit ''schedule'') t)
          \<and> (\<forall>t\<in>set ?ts. task_matches schedule_id object_type object_id t
                 \<longrightarrow> has_child (lit ''extractRefresh'') t)"
    then have wf: "\<forall>t\<in>set ?ts. has_child object_type t \<longrightarrow> has_child (lit ''schedule'') t"
      by blast
    from a have wf2: "\<forall>t\<in>set ?ts. task_matches schedule_id object_type object_id t
                 \<longrightarrow> has_child (lit ''extractRefresh'') t"
      by blast
    show "(\<exists>i. get_extract_refresh_id w server auth_token site_id schedule_id object_type
                   object_id = Inr i)
          \<or> (\<exists>msg. get_extract_refresh_id w server auth_token site_id schedule_id object_type
                   object_id = Inl (LookupError msg))"
      unfolding scan task_loop_find [OF wf wf2] by (simp split: option.splits)
  qed
  have 3: "get_extract_refresh_id w server auth_token site_id schedule_id object_type object_id
            \<noteq> Inl AttributeError \<longrightarrow>
          get_extract_refresh_id w server auth_token site_id schedule_id object_type object_id =
            (case find (task_matches schedule_id object_type object_id) ?ts of
               None \<Rightarrow> Inl (LookupError
                  (lit ''Extract with schedule_id '' @ [39] @ py_str schedule_id @ [39]
                   @ lit '' and object_id '' @ [39] @ py_str object_id @ [39]
                   @ lit '' not found.''))
             | Some t \<Rightarrow> Inr (child_id (lit ''extractRefresh'') t))"
    unfolding scan by (intro impI, rule task_loop_not_abort)
  have 4: "get_extract_refresh_id w server auth_token site_id schedule_id object_type object_id
            = Inl AttributeError
          \<or> (\<exists>i. get_extract_refresh_id w server auth_token site_id schedule_id object_type
                   object_id = Inr i)
          \<or> get_extract_refresh_id w server auth_token site_id schedule_id object_type object_id
            = Inl (LookupError
                  (lit ''Extract with schedule_id '' @ [39] @ py_str schedule_id @ [39]
                   @ lit '' and object_id '' @ [39] @ py_str object_id @ [39]
                   @ lit '' not found.''))"
  proof (cases "get_extract_refresh_id w server auth_token site_id schedule_id object_type
                  object_id = Inl AttributeError")
    case True
    then show ?thesis by (rule disjI1)
  next
    case False
    with 3 have "get_extract_refresh_id w server auth_token site_id schedule_id object_type
        object_id =
            (case find (task_matches schedule_id object_type object_id) ?ts of
               None \<Rightarrow> Inl (LookupError
                  (lit ''Extract with schedule_id '' @ [39] @ py_str schedule_id @ [39]
                   @ lit '' and object_id '' @ [39] @ py_str object_id @ [39]
                   @ lit '' not found.''))
             | Some t \<Rightarrow> Inr (child_id (lit ''extractRefresh'') t))"
      by blast
    then show ?thesis
      by (cases "find (task_matches schedule_id object_type object_id) ?ts") simp_all
  qed
  from 1 2 3 4 show ?thesis by (intro conjI)
qed

lemma fetch_one_task_url:
  "fetch_xml (one_task_site task) (lit ''http://localhost'' @ lit ''/api/''
      @ VERSION (one_task_site task) @ lit ''/sites/'' @ py_str (Some (lit ''site1''))
      @ lit ''/tasks/extractRefreshes'') tok
     = Inr (node ''tsResponse'' [] [node ''tasks'' [] [task]])"
proof -
  have "lit ''http://localhost'' @ lit ''/api/''
      @ VERSION (one_task_site task) @ lit ''/sites/'' @ py_str (Some (lit ''site1''))
      @ lit ''/tasks/extractRefreshes'' = tasks_url"
    by (simp add: one_task_site_def example_world_def tasks_url_def py_str_def
        lit_append [symmetric])
  then show ?thesis by (simp only: fetch_one_task)
qed

text \<open>
  A task without a \<open>schedule\<close> element (and without a \<open>workbook\<close> element) does
  not abort the lookup: the task is skipped and the LookupError is raised.
\<close>

theorem lookup_without_schedule_not_found:
  "\<not> has_child (lit ''schedule'') bare_task
   \<and> get_extract_refresh_id (one_task_site bare_task) (lit ''http://localhost'')
       (Some (lit ''tok1'')) (Some (lit ''site1'')) (Some (lit ''s1'')) (lit ''workbook'')
       (Some (lit ''w1''))
     = Inl (LookupError
         (lit ''Extract with schedule_id '' @ [39] @ lit ''s1'' @ [39]
          @ lit '' and object_id '' @ [39] @ lit ''w1'' @ [39] @ lit '' not found.''))"
proof -
  have t: "ET_findall (node ''tsResponse'' [] [node ''tasks'' [] [bare_task]])
             (Descendant (lit ''task'')) = [bare_task]"
    by (rule findall_one_task) (simp_all add: bare_task_def node_def)
  show ?thesis
    unfolding get_extract_refresh_id_scan [OF fetch_one_task_url] t
    by (simp add: task_eval Let_def)
qed

text \<open>
  A task with a \<open>workbook\<close> element and no \<open>schedule\<close> element aborts the lookup;
  the listing with task A alone satisfies the precondition; in the listing where that
  incomplete task comes after task A the precondition fails, the lookup does not abort,
  and it returns \<open>e1\<close>.
\<close>

theorem extract_refresh_lookup_abort_witness:
  "get_extract_refresh_id (one_task_site unscheduled_task) (lit ''http://localhost'')
       (Some (lit ''tok1'')) (Some (lit ''site1'')) (Some (lit ''s1'')) (lit ''workbook'')
       (Some (lit ''w1'')) = Inl AttributeError
   \<and> ((\<exists>i. get_extract_refresh_id (one_task_site task_A) (lit ''http://localhost'')
       (Some (lit ''tok1'')) (Some (lit ''site1'')) (Some (lit ''s1'')) (lit ''workbook'')
       (Some (lit ''w1'')) = Inr i)
     \<or> (\<exists>msg. get_extract_refresh_id (one_task_site task_A) (lit ''http://localhost'')
       (Some (lit ''tok1'')) (Some (lit ''site1'')) (Some (lit ''s1'')) (lit ''workbook'')
       (Some (lit ''w1'')) = Inl (LookupError msg)))
   \<and> get_extract_refresh_id (tasks_site [task_A, unscheduled_task]) (lit ''http://localhost'')
       (Some (lit ''tok1'')) (Some (lit ''site1'')) (Some (lit ''s1'')) (lit ''workbook'')
       (Some (lit ''w1'')) = Inr (Some (lit ''e1''))"
proof -
  have t1: "ET_findall (node ''tsResponse'' [] [node ''tasks'' [] [unscheduled_task]])
             (Descendant (lit ''task'')) = [unscheduled_task]"
    by (rule findall_one_task) (simp_all add: unscheduled_task_def node_def)
  have t2: "ET_findall (node ''tsResponse'' [] [node ''tasks'' [] [task_A]])
             (Descendant (lit ''task'')) = [task_A]"
    by (rule findall_one_task) (simp_all add: task_A_def node_def)
  note u = extract_refresh_lookup_abort [OF fetch_one_task_url,
      of unscheduled_task "Some (lit ''tok1'')" "Some (lit ''s1'')" "lit ''workbook''"
         "Some (lit ''w1'')"]
  note v = extract_refresh_lookup_abort [OF fetch_one_task_url,
      of task_A "Some (lit ''tok1'')" "Some (lit ''s1'')" "lit ''workbook''"
         "Some (lit ''w1'')"]
  note x = extract_refresh_lookup_abort [OF fetch_tasks_site,
      of "[task_A, unscheduled_task]" "Some (lit ''tok1'')" "Some (lit ''s1'')"
         "lit ''workbook''" "Some (lit ''w1'')"]
  have a: "get_extract_refresh_id (one_task_site unscheduled_task) (lit ''http://localhost'')
       (Some (lit ''tok1'')) (Some (lit ''site1'')) (Some (lit ''s1'')) (lit ''workbook'')
       (Some (lit ''w1'')) = Inl AttributeError"
    using u [THEN conjunct1] unfolding t1 by (simp add: task_eval)
  have b: "(\<exists>i. get_extract_refresh_id (one_task_site task_A) (lit ''http://localhost'')
       (Some (lit ''tok1'')) (Some (lit ''site1'')) (Some (lit ''s1'')) (lit ''workbook'')
       (Some (lit ''w1'')) = Inr i)
     \<or> (\<exists>msg. get_extract_refresh_id (one_task_site task_A) (lit ''http://localhost'')
       (Some (lit ''tok1'')) (Some (lit ''site1'')) (Some (lit ''s1'')) (lit ''workbook'')
       (Some (lit ''w1'')) = Inl (LookupError msg))"
    using v [THEN conjunct2, THEN conjunct1] unfolding t2 by (simp add: task_eval)
  have na: "get_extract_refresh_id (tasks_site [task_A, unscheduled_task])
       (lit ''http://localhost'') (Some (lit ''tok1'')) (Some (lit ''site1''))
       (Some (lit ''s1'')) (lit ''workbook'') (Some (lit ''w1'')) \<noteq> Inl AttributeError"
    using x [THEN conjunct1] unfolding findall_mixed by (simp add: task_eval)
  have c: "get_extract_refresh_id (tasks_site [task_A, unscheduled_task])
       (lit ''http://localhost'') (Some (lit ''tok1'')) (Some (lit ''site1''))
       (Some (lit ''s1'')) (lit ''workbook'') (Some (lit ''w1'')) = Inr (Some (lit ''e1''))"
    using x [THEN conjunct2, THEN conjunct2, THEN conjunct1] na unfolding findall_mixed
    by (simp add: task_eval)
  from a b c show ?thesis by (intro conjI)
qed

section \<open>The first match wins\<close>

lemma more_projects_concat:
  "\<forall>p\<in>set pages. fetch_xml w (paged_url u ps p) tok = Inr (page p) \<Longrightarrow>
   more_projects w u tok ps pages acc =
     Inr (acc @ concat (map (\<lambda>p. ET_findall (page p) (Descendant (lit ''project''))) pages))"
  by (induction pages arbitrary: acc) simp_all

lemma all_projects_order:
  assumes "fetch_xml w (paged_url (server @ lit ''/api/'' @ VERSION w @ lit ''/sites/''
              @ py_str site_id @ lit ''/projects'') 100 1) auth_token = Inr page1"
      and "ET_find page1 (Child (lit ''pagination'')) = Some pg"
      and "py_int w (ET_get pg (lit ''totalAvailable'')) = Inr total_projects"
      and "max_page_of total_projects 100 = Inr mp"
      and "\<forall>p\<in>set [2..mp]. fetch_xml w (paged_url (server @ lit ''/api/'' @ VERSION w
              @ lit ''/sites/'' @ py_str site_id @ lit ''/projects'') 100 p) auth_token
            = Inr (page p)"
  shows "all_projects w server auth_token site_id =
           Inr (ET_findall page1 (Descendant (lit ''project''))
                @ concat (map (\<lambda>p. ET_findall (page p) (Descendant (lit ''project''))) [2..mp]))"
  using assms(1-4) more_projects_concat [OF assms(5)]
  by (simp add: all_projects_def Let_def)

text \<open>
  C8: every resolver returns the id of the first element, in the order of the scanned
  list, that satisfies its match condition (\<open>find\<close> yields the first element of a list
  that satisfies a predicate). The project and schedule loops do so for every list. The
  workbook, data source and task loops do so whenever they return, and they return (or
  raise the LookupError when nothing matches) when every element with the name has a
  \<open>project\<close> element, respectively when every task with an element of the object type
  has a \<open>schedule\<close> element and every matching task an \<open>extractRefresh\<close> element.
  \<open>get_project_id\<close> scans the list that \<open>all_projects\<close> builds, and when all pages
  are fetched that list is the \<open>project\<close> elements of page 1 followed by those of the
  pages 2 to \<open>max_page\<close> in this order.
\<close>

theorem first_match_returned:
  "project_loop xs n =
     (case find (named n) xs of
        None \<Rightarrow> Inl (LookupError
          (lit ''Project named '' @ [39] @ n @ [39] @ lit '' was not found on server''))
      | Some x \<Rightarrow> Inr (ET_get x (lit ''id'')))
   \<and> schedule_loop xs n =
     (case find (named n) xs of
        None \<Rightarrow> Inl (LookupError (lit ''Schedule named '' @ [39] @ n @ [39] @ lit '' not found.''))
      | Some x \<Rightarrow> Inr (ET_get x (lit ''id'')))
   \<and> (\<forall>i. workbook_loop xs pid n = Inr i \<longrightarrow>
         (\<exists>x. find (\<lambda>x. named n x \<and> in_project pid x) xs = Some x \<and> i = ET_get x (lit ''id'')))
   \<and> (\<forall>i. datasource_loop xs pid n = Inr i \<longrightarrow>
         (\<exists>x. find (\<lambda>x. named n x \<and> in_project pid x) xs = Some x \<and> i = ET_get x (lit ''id'')))
   \<and> (\<forall>i. task_loop xs sid ot oid = Inr i \<longrightarrow>
         (\<exists>t. find (task_matches sid ot oid) xs = Some t
              \<and> i = child_id (lit ''extractRefresh'') t))
   \<and> ((\<forall>x\<in>set xs. named n x \<longrightarrow> has_child (lit ''project'') x) \<longrightarrow>
         workbook_loop xs pid n =
           (case find (\<lambda>x. named n x \<and> in_project pid x) xs of
              None \<Rightarrow> Inl (LookupError
                (lit ''Workbook named '' @ [39] @ n @ [39] @ lit '' not found.''))
            | Some x \<Rightarrow> Inr (ET_get x (lit ''id'')))
       \<and> datasource_loop xs pid n =
           (case find (\<lambda>x. named n x \<and> in_project pid x) xs of
              None \<Rightarrow> Inl (LookupError
                (lit ''Datasource named '' @ [39] @ n @ [39] @ lit '' not found.''))
            | Some x \<Rightarrow> Inr (ET_get x (lit ''id''))))
   \<and> ((\<forall>t\<in>set xs. has_child ot t \<longrightarrow> has_child (lit ''schedule'') t)
        \<and> (\<forall>t\<in>set xs. task_matches sid ot oid t \<longrightarrow> has_child (lit ''extractRefresh'') t)
       \<longrightarrow>
         task_loop xs sid ot oid =
           (case find (task_matches sid ot oid) xs of
              None \<Rightarrow> Inl (LookupError
                 (lit ''Extract with schedule_id '' @ [39] @ py_str sid @ [39]
                  @ lit '' and object_id '' @ [39] @ py_str oid @ [39] @ lit '' not found.''))
            | Some t \<Rightarrow> Inr (child_id (lit ''extractRefresh'') t)))
   \<and> get_project_id w server auth_token site_id n =
       and_then (all_projects w server auth_token site_id) (\<lambda>projects. project_loop projects n)
   \<and> (fetch_xml w (paged_url (server @ lit ''/api/'' @ VERSION w @ lit ''/sites/''
              @ py_str site_id @ lit ''/projects'') 100 1) auth_token = Inr page1
       \<and> ET_find page1 (Child (lit ''pagination'')) = Some pg
       \<and> py_int w (ET_get pg (lit ''totalAvailable'')) = Inr total_projects
       \<and> max_page_of total_projects 100 = Inr mp
       \<and> (\<forall>p\<in>set [2..mp]. fetch_xml w (paged_url (server @ lit ''/api/'' @ VERSION w
              @ lit ''/sites/'' @ py_str site_id @ lit ''/projects'') 100 p) auth_token
            = Inr (page p))
       \<longrightarrow> all_projects w server auth_token site_id =
           Inr (ET_findall page1 (Descendant (lit ''project''))
                @ concat (map (\<lambda>p. ET_findall (page p) (Descendant (lit ''project'')))
                            [2..mp])))"
proof -
  have 1: "\<forall>i. workbook_loop xs pid n = Inr i \<longrightarrow>
         (\<exists>x. find (\<lambda>x. named n x \<and> in_project pid x) xs = Some x \<and> i = ET_get x (lit ''id''))"
    using workbook_loop_Inr by blast
  have 2: "\<forall>i. datasource_loop xs pid n = Inr i \<longrightarrow>
         (\<exists>x. find (\<lambda>x. named n x \<and> in_project pid x) xs = Some x \<and> i = ET_get x (lit ''id''))"
    using datasource_loop_Inr by blast
  have 3: "\<forall>i. task_loop xs sid ot oid = Inr i \<longrightarrow>
         (\<exists>t. find (task_matches sid ot oid) xs = Some t
              \<and> i = child_id (lit ''extractRefresh'') t)"
    using task_loop_Inr by blast
  have 4: "(\<forall>x\<in>set xs. named n x \<longrightarrow> has_child (lit ''project'') x) \<longrightarrow>
         workbook_loop xs pid n =
           (case find (\<lambda>x. named n x \<and> in_project pid x) xs of
              None \<Rightarrow> Inl (LookupError
                (lit ''Workbook named '' @ [39] @ n @ [39] @ lit '' not found.''))
            | Some x \<Rightarrow> Inr (ET_get x (lit ''id'')))
       \<and> datasource_loop xs pid n =
           (case find (\<lambda>x. named n x \<and> in_project pid x) xs of
              None \<Rightarrow> Inl (LookupError
                (lit ''Datasource named '' @ [39] @ n @ [39] @ lit '' not found.''))
            | Some x \<Rightarrow> Inr (ET_get x (lit ''id'')))"
    using workbook_loop_find [of xs n pid] datasource_loop_find [of xs n pid]
    by (intro impI conjI)
  have 5: "(\<forall>t\<in>set xs. has_child ot t \<longrightarrow> has_child (lit ''schedule'') t)
        \<and> (\<forall>t\<in>set xs. task_matches sid ot oid t \<longrightarrow> has_child (lit ''extractRefresh'') t)
       \<longrightarrow>
         task_loop xs sid ot oid =
           (case find (task_matches sid ot oid) xs of
              None \<Rightarrow> Inl (LookupError
                 (lit ''Extract with schedule_id '' @ [39] @ py_str sid @ [39]
                  @ lit '' and object_id '' @ [39] @ py_str oid @ [39] @ lit '' not found.''))
            | Some t \<Rightarrow> Inr (child_id (lit ''extractRefresh'') t))"
    using task_loop_find [of xs ot sid oid] by (intro impI) (elim conjE)
  have 6: "get_project_id w server auth_token site_id n =
       and_then (all_projects w server auth_token site_id) (\<lambda>projects. project_loop projects n)"
    by (simp add: get_project_id_def)
  have 7: "fetch_xml w (paged_url (server @ lit ''/api/'' @ VERSION w @ lit ''/sites/''
              @ py_str site_id @ lit ''/projects'') 100 1) auth_token = Inr page1
       \<and> ET_find page1 (Child (lit ''pagination'')) = Some pg
       \<and> py_int w (ET_get pg (lit ''totalAvailable'')) = Inr total_projects
       \<and> max_page_of total_projects 100 = Inr mp
       \<and> (\<forall>p\<in>set [2..mp]. fetch_xml w (paged_url (server @ lit ''/api/'' @ VERSION w
              @ lit ''/sites/'' @ py_str site_id @ lit ''/projects'') 100 p) auth_token
            = Inr (page p))
       \<longrightarrow> all_projects w server auth_token site_id =
           Inr (ET_findall page1 (Descendant (lit ''project''))
                @ concat (map (\<lambda>p. ET_findall (page p) (Descendant (lit ''project'')))
                            [2..mp]))"
    by (intro impI, elim conjE, rule all_projects_order)
  from project_loop_find [of xs n] schedule_loop_find [of xs n] 1 2 3 4 5 6 7
  show ?thesis by (intro conjI)
qed

text \<open>
  On the example site the project \<open>Sales\<close> occurs on page 1 (\<open>p2\<close>) and on page 2
  (\<open>p3\<close>), and both schedules have the same name: the first one is returned.
\<close>

lemma str_int_small: "str_int 100 = lit ''100''" "str_int 1 = lit ''1''" "str_int 2 = lit ''2''"
  by (simp_all add: str_int_def lit_def)

lemma max_page_101: "max_page_of 101 100 = Inr 2"
  by code_simp

lemma findall_projects1:
  "ET_findall projects_page1 (Descendant (lit ''project'')) =
     [node ''project'' [(''id'', ''p1''), (''name'', ''Default'')] [],
      node ''project'' [(''id'', ''p2''), (''name'', ''Sales'')] []]"
  by (simp add: projects_page1_def node_def ET_findall.simps)

lemma findall_projects2:
  "ET_findall projects_page2 (Descendant (lit ''project'')) =
     [node ''project'' [(''id'', ''p3''), (''name'', ''Sales'')] []]"
  by (simp add: projects_page2_def node_def ET_findall.simps)

lemma find_pagination1:
  "ET_find projects_page1 (Child (lit ''pagination'')) =
     Some (node ''pagination'' [(''pageNumber'', ''1''), (''pageSize'', ''100''),
                              (''totalAvailable'', ''101'')] [])"
  by (simp add: projects_page1_def xml_eval)

lemma total_101:
  "py_int example_site (ET_get (node ''pagination'' [(''pageNumber'', ''1''),
       (''pageSize'', ''100''), (''totalAvailable'', ''101'')] []) (lit ''totalAvailable''))
     = Inr 101"
  by (simp add: py_int_def example_site_def example_world_def decimal_def xml_eval)
     (simp add: lit_def)

lemma findall_schedules:
  "ET_findall schedules_doc (Descendant (lit ''schedule'')) =
     [node ''schedule'' [(''id'', ''s1''), (''name'', ''End of the month'')] [],
      node ''schedule'' [(''id'', ''s2''), (''name'', ''End of the month'')] []]"
  by (simp add: schedules_doc_def node_def ET_findall.simps)

theorem first_match_returned_witness:
  "get_project_id example_site (lit ''http://localhost'') (Some (lit ''tok1''))
      (Some (lit ''site1'')) (lit ''Sales'') = Inr (Some (lit ''p2''))
   \<and> schedule_loop (ET_findall schedules_doc (Descendant (lit ''schedule'')))
       (lit ''End of the month'') = Inr (Some (lit ''s1''))
   \<and> task_loop [task_A, task_B] (Some (lit ''s1'')) (lit ''workbook'') (Some (lit ''w1''))
       = Inr (Some (lit ''e1''))
   \<and> workbook_loop (ET_findall workbooks_doc (Descendant (lit ''workbook'')))
       (Some (lit ''p2'')) (lit ''Book1'') = Inr (Some (lit ''w2''))
   \<and> datasource_loop (ET_findall datasources_doc (Descendant (lit ''datasource'')))
       (Some (lit ''p2'')) (lit ''Book1'') = Inr (Some (lit ''d2''))"
proof -
  let ?u = "lit ''http://localhost'' @ lit ''/api/'' @ VERSION example_site @ lit ''/sites/''
              @ py_str (Some (lit ''site1'')) @ lit ''/projects''"
  have f1: "fetch_xml example_site (paged_url ?u 100 1) (Some (lit ''tok1'')) = Inr projects_page1"
    by (simp add: paged_url_def str_int_small url_eval fetch_page1)
  have f2: "\<forall>p\<in>set [2..2]. fetch_xml example_site (paged_url ?u 100 p) (Some (lit ''tok1''))
              = Inr ((\<lambda>_. projects_page2) p)"
    by (simp add: paged_url_def str_int_small url_eval fetch_page2)
  note t = first_match_returned
    [of "ET_findall projects_page1 (Descendant (lit ''project''))
         @ concat (map (\<lambda>p. ET_findall ((\<lambda>_. projects_page2) p) (Descendant (lit ''project'')))
                     [2..2])"
        "lit ''Sales''" undefined undefined undefined undefined example_site
        "lit ''http://localhost''" "Some (lit ''tok1'')" "Some (lit ''site1'')" projects_page1
        "node ''pagination'' [(''pageNumber'', ''1''), (''pageSize'', ''100''),
                              (''totalAvailable'', ''101'')] []"
        101 2 "\<lambda>_. projects_page2"]
  have all: "all_projects example_site (lit ''http://localhost'') (Some (lit ''tok1''))
               (Some (lit ''site1''))
             = Inr (ET_findall projects_page1 (Descendant (lit ''project''))
                @ concat (map (\<lambda>p. ET_findall ((\<lambda>_. projects_page2) p)
                    (Descendant (lit ''project''))) [2..2]))"
    using t f1 f2 find_pagination1 total_101 max_page_101 by blast
  have gp: "get_project_id example_site (lit ''http://localhost'') (Some (lit ''tok1''))
      (Some (lit ''site1'')) (lit ''Sales'')
      = and_then (all_projects example_site (lit ''http://localhost'') (Some (lit ''tok1''))
          (Some (lit ''site1''))) (\<lambda>projects. project_loop projects (lit ''Sales''))"
    using t by blast
  have a: "get_project_id example_site (lit ''http://localhost'') (Some (lit ''tok1''))
      (Some (lit ''site1'')) (lit ''Sales'') = Inr (Some (lit ''p2''))"
    unfolding gp all and_then_Inr t [THEN conjunct1] findall_projects1 findall_projects2
    by (simp add: match_defs xml_eval)
  have b: "schedule_loop (ET_findall schedules_doc (Descendant (lit ''schedule'')))
       (lit ''End of the month'') = Inr (Some (lit ''s1''))"
    unfolding first_match_returned
      [of "ET_findall schedules_doc (Descendant (lit ''schedule''))" "lit ''End of the month''",
       THEN conjunct2, THEN conjunct1] findall_schedules
    by (simp add: match_defs xml_eval)
  note tt = first_match_returned
    [of "[task_A, task_B]" undefined undefined "Some (lit ''s1'')" "lit ''workbook''"
        "Some (lit ''w1'')"]
  have wf: "(\<forall>t\<in>set [task_A, task_B]. has_child (lit ''workbook'') t
               \<longrightarrow> has_child (lit ''schedule'') t)
        \<and> (\<forall>t\<in>set [task_A, task_B].
              task_matches (Some (lit ''s1'')) (lit ''workbook'') (Some (lit ''w1'')) t
                \<longrightarrow> has_child (lit ''extractRefresh'') t)"
    by (simp add: task_eval)
  have "task_loop [task_A, task_B] (Some (lit ''s1'')) (lit ''workbook'') (Some (lit ''w1''))
      = (case find (task_matches (Some (lit ''s1'')) (lit ''workbook'') (Some (lit ''w1'')))
                [task_A, task_B] of
              None \<Rightarrow> Inl (LookupError
                 (lit ''Extract with schedule_id '' @ [39] @ py_str (Some (lit ''s1'')) @ [39]
                  @ lit '' and object_id '' @ [39] @ py_str (Some (lit ''w1'')) @ [39]
                  @ lit '' not found.''))
            | Some t \<Rightarrow> Inr (child_id (lit ''extractRefresh'') t))"
    using tt wf by blast
  then have c: "task_loop [task_A, task_B] (Some (lit ''s1'')) (lit ''workbook'')
      (Some (lit ''w1'')) = Inr (Some (lit ''e1''))"
    by (simp add: task_eval)
  note tw = first_match_returned
    [of "ET_findall workbooks_doc (Descendant (lit ''workbook''))" "lit ''Book1''"
        "Some (lit ''p2'')"]
  have wfw: "\<forall>x\<in>set (ET_findall workbooks_doc (Descendant (lit ''workbook''))).
               named (lit ''Book1'') x \<longrightarrow> has_child (lit ''project'') x"
    unfolding findall_workbooks by (simp add: match_defs xml_eval)
  have "workbook_loop (ET_findall workbooks_doc (Descendant (lit ''workbook'')))
       (Some (lit ''p2'')) (lit ''Book1'')
      = (case find (\<lambda>x. named (lit ''Book1'') x \<and> in_project (Some (lit ''p2'')) x)
                (ET_findall workbooks_doc (Descendant (lit ''workbook''))) of
              None \<Rightarrow> Inl (LookupError
                (lit ''Workbook named '' @ [39] @ lit ''Book1'' @ [39] @ lit '' not found.''))
            | Some x \<Rightarrow> Inr (ET_get x (lit ''id'')))"
    using tw wfw by blast
  then have d: "workbook_loop (ET_findall workbooks_doc (Descendant (lit ''workbook'')))
       (Some (lit ''p2'')) (lit ''Book1'') = Inr (Some (lit ''w2''))"
    unfolding findall_workbooks by (simp add: match_defs xml_eval)
  note td = first_match_returned
    [of "ET_findall datasources_doc (Descendant (lit ''datasource''))" "lit ''Book1''"
        "Some (lit ''p2'')"]
  have wfd: "\<forall>x\<in>set (ET_findall datasources_doc (Descendant (lit ''datasource''))).
               named (lit ''Book1'') x \<longrightarrow> has_child (lit ''project'') x"
    unfolding findall_datasources by (simp add: match_defs xml_eval)
  have "datasource_loop (ET_findall datasources_doc (Descendant (lit ''datasource'')))
       (Some (lit ''p2'')) (lit ''Book1'')
      = (case find (\<lambda>x. named (lit ''Book1'') x \<and> in_project (Some (lit ''p2'')) x)
                (ET_findall datasources_doc (Descendant (lit ''datasource''))) of
              None \<Rightarrow> Inl (LookupError
                (lit ''Datasource named '' @ [39] @ lit ''Book1'' @ [39] @ lit '' not found.''))
            | Some x \<Rightarrow> Inr (ET_get x (lit ''id'')))"
    using td wfd by blast
  then have e: "datasource_loop (ET_findall datasources_doc (Descendant (lit ''datasource'')))
       (Some (lit ''p2'')) (lit ''Book1'') = Inr (Some (lit ''d2''))"
    unfolding findall_datasources by (simp add: match_defs xml_eval)
  from a b c d e show ?thesis by (intro conjI)
qed

section \<open>The pipeline and the sign-out\<close>

lemma invoke_Inl [simp]: "invoke c (Inl e) k = ([c], Inl e)"
  by (simp add: invoke_def)

lemma invoke_Inr [simp]: "invoke c (Inr v) k = (c # fst (k v), snd (k v))"
  by (simp add: invoke_def split: prod.splits)

text \<open>
  C1: as the code has it, in a run of \<open>main\<close> in which \<open>sign_in\<close> succeeds,
  \<open>sign_out\<close> is called exactly once when the four resolvers and the run-now call
  all return, and not at all when one of them raises: the exception leaves \<open>main\<close>
  before the call of \<open>sign_out\<close> is reached.
\<close>

theorem main_sign_out_count:
  assumes "argv_or_defaults argv =
             (server, server_username, password, site, project_name, object_type, object_name,
              schedule_name)"
      and "sign_in w server server_username password site = Inr (auth_token, site_id, user_id)"
  shows "count_list (fst (main w argv)) SignOut =
     (case get_project_id w server auth_token site_id project_name of
        Inl _ \<Rightarrow> 0
      | Inr project_id \<Rightarrow>
         (case (if object_type = lit ''datasource''
                then get_datasource_id w server auth_token site_id project_id object_name
                else get_workbook_id w server auth_token user_id site_id project_id object_name) of
            Inl _ \<Rightarrow> 0
          | Inr object_id \<Rightarrow>
             (case get_schedule_id w server auth_token schedule_name of
                Inl _ \<Rightarrow> 0
              | Inr schedule_id \<Rightarrow>
                 (case get_extract_refresh_id w server auth_token site_id schedule_id object_type
                         object_id of
                    Inl _ \<Rightarrow> 0
                  | Inr extract_refresh_id \<Rightarrow>
                     (case run_extract_refresh_task w server auth_token site_id
                             extract_refresh_id of
                        Inl _ \<Rightarrow> 0
                      | Inr job_id \<Rightarrow> 1)))))"
  using assms
  by (cases "sign_out w server auth_token") (simp_all add: main_def split: sum.splits)

text \<open>The stages of the pipeline on the example site.\<close>

lemma argv_defaults:
  "argv_or_defaults [] =
     (lit ''http://localhost'', lit ''admin'', lit ''admin'', [], lit ''Default'',
      lit ''workbook'', lit ''Book1'', lit ''End of the month'')"
  by (simp add: argv_or_defaults_def)

lemma argv_marketing:
  "argv_or_defaults marketing_argv =
     (lit ''http://localhost'', lit ''admin'', lit ''admin'', [], lit ''Marketing'',
      lit ''workbook'', lit ''Book1'', lit ''End of the month'')"
  by (simp add: argv_or_defaults_def marketing_argv_def)

lemma sign_in_example:
  "sign_in example_site (lit ''http://localhost'') (lit ''admin'') (lit ''admin'') []
     = Inr (Some (lit ''tok1''), Some (lit ''site1''), Some (lit ''user1''))"
  by (simp add: sign_in_def example_site_def example_pages_def example_docs_def ok_def
      world_eval lit_append [symmetric] encode_for_display_eq encode_ascii_lit signin_doc_def
      xml_eval)

lemma all_projects_example:
  "all_projects example_site (lit ''http://localhost'') (Some (lit ''tok1''))
     (Some (lit ''site1''))
   = Inr [node ''project'' [(''id'', ''p1''), (''name'', ''Default'')] [],
          node ''project'' [(''id'', ''p2''), (''name'', ''Sales'')] [],
          node ''project'' [(''id'', ''p3''), (''name'', ''Sales'')] []]"
proof -
  let ?u = "lit ''http://localhost'' @ lit ''/api/'' @ VERSION example_site @ lit ''/sites/''
              @ py_str (Some (lit ''site1'')) @ lit ''/projects''"
  have f1: "fetch_xml example_site (paged_url ?u 100 1) (Some (lit ''tok1'')) = Inr projects_page1"
    by (simp add: paged_url_def str_int_small url_eval fetch_page1)
  have f2: "\<forall>p\<in>set [2..2]. fetch_xml example_site (paged_url ?u 100 p) (Some (lit ''tok1''))
              = Inr ((\<lambda>_. projects_page2) p)"
    by (simp add: paged_url_def str_int_small url_eval fetch_page2)
  show ?thesis
    unfolding all_projects_order [OF f1 find_pagination1 total_101 max_page_101 f2]
      findall_projects1 findall_projects2
    by simp
qed

lemma project_default_example:
  "get_project_id example_site (lit ''http://localhost'') (Some (lit ''tok1''))
     (Some (lit ''site1'')) (lit ''Default'') = Inr (Some (lit ''p1''))"
  unfolding get_project_id_def all_projects_example and_then_Inr
  by (simp add: xml_eval)

lemma project_marketing_example:
  "get_project_id example_site (lit ''http://localhost'') (Some (lit ''tok1''))
     (Some (lit ''site1'')) (lit ''Marketing'')
   = Inl (LookupError
       (lit ''Project named '' @ [39] @ lit ''Marketing'' @ [39] @ lit '' was not found on server''))"
  unfolding get_project_id_def all_projects_example and_then_Inr
  by (simp add: xml_eval)

lemma workbook_example:
  "get_workbook_id example_site (lit ''http://localhost'') (Some (lit ''tok1''))
     (Some (lit ''user1'')) (Some (lit ''site1'')) (Some (lit ''p1'')) (lit ''Book1'')
   = Inr (Some (lit ''w1''))"
proof -
  have "get_workbook_id example_site (lit ''http://localhost'') (Some (lit ''tok1''))
     (Some (lit ''user1'')) (Some (lit ''site1'')) (Some (lit ''p1'')) (lit ''Book1'')
     = workbook_loop (ET_findall workbooks_doc (Descendant (lit ''workbook'')))
         (Some (lit ''p1'')) (lit ''Book1'')"
    by (simp add: get_workbook_id_def url_eval fetch_workbooks)
  then show ?thesis
    unfolding findall_workbooks by (simp add: xml_eval)
qed

lemma schedule_example:
  "get_schedule_id example_site (lit ''http://localhost'') (Some (lit ''tok1''))
     (lit ''End of the month'') = Inr (Some (lit ''s1''))"
proof -
  have "get_schedule_id example_site (lit ''http://localhost'') (Some (lit ''tok1''))
     (lit ''End of the month'')
     = schedule_loop (ET_findall schedules_doc (Descendant (lit ''schedule'')))
         (lit ''End of the month'')"
    by (simp add: get_schedule_id_def url_eval fetch_schedules)
  then show ?thesis
    unfolding findall_schedules by (simp add: xml_eval)
qed

lemma task_example:
  "get_extract_refresh_id example_site (lit ''http://localhost'') (Some (lit ''tok1''))
     (Some (lit ''site1'')) (Some (lit ''s1'')) (lit ''workbook'') (Some (lit ''w1''))
   = Inr (Some (lit ''e1''))"
proof -
  have "get_extract_refresh_id example_site (lit ''http://localhost'') (Some (lit ''tok1''))
     (Some (lit ''site1'')) (Some (lit ''s1'')) (lit ''workbook'') (Some (lit ''w1''))
     = task_loop (ET_findall tasks_doc (Descendant (lit ''task'')))
         (Some (lit ''s1'')) (lit ''workbook'') (Some (lit ''w1''))"
    by (simp add: get_extract_refresh_id_def url_eval fetch_tasks)
  then show ?thesis
    unfolding findall_tasks by (simp add: task_eval Let_def)
qed

lemma run_example:
  "run_extract_refresh_task example_site (lit ''http://localhost'') (Some (lit ''tok1''))
     (Some (lit ''site1'')) (Some (lit ''e1'')) = Inr (Some (lit ''j1''))"
  by (simp add: run_extract_refresh_task_def example_site_def example_pages_def
      example_docs_def ok_def world_eval lit_append [symmetric] encode_for_display_eq
      encode_ascii_lit job_doc_def xml_eval)

lemma sign_out_example:
  "sign_out example_site (lit ''http://localhost'') (Some (lit ''tok1'')) = Inr ()"
  by (simp add: sign_out_def example_site_def example_pages_def world_eval
      lit_append [symmetric])

lemmas stage_examples = sign_in_example project_default_example project_marketing_example
  workbook_example schedule_example task_example run_example sign_out_example

text \<open>
  On the example site, asking for the project \<open>Marketing\<close>: the sign-in succeeds, the
  project lookup raises its LookupError, and \<open>sign_out\<close> is never called.
\<close>

theorem main_leaks_session:
  "sign_in example_site (lit ''http://localhost'') (lit ''admin'') (lit ''admin'') []
     = Inr (Some (lit ''tok1''), Some (lit ''site1''), Some (lit ''user1''))
   \<and> main example_site marketing_argv =
       ([SignIn, GetProjectId],
        Inl (LookupError (lit ''Project named '' @ [39] @ lit ''Marketing'' @ [39]
               @ lit '' was not found on server'')))
   \<and> count_list (fst (main example_site marketing_argv)) SignOut = 0"
  by (simp add: main_def argv_marketing stage_examples)

text \<open>
  With the default arguments every stage succeeds on the example site and \<open>sign_out\<close>
  is called once; with the project \<open>Marketing\<close> it is not called.
\<close>

theorem main_sign_out_count_witness:
  "main example_site [] =
     ([SignIn, GetProjectId, GetWorkbookId, GetScheduleId, GetExtractRefreshId,
       RunExtractRefreshTask, SignOut], Inr ())
   \<and> count_list (fst (main example_site [])) SignOut = 1
   \<and> count_list (fst (main example_site marketing_argv)) SignOut = 0"
proof -
  have a: "main example_site [] =
     ([SignIn, GetProjectId, GetWorkbookId, GetScheduleId, GetExtractRefreshId,
       RunExtractRefreshTask, SignOut], Inr ())"
    by (simp add: main_def argv_defaults stage_examples)
  have b: "count_list (fst (main example_site [])) SignOut = 1"
    using main_sign_out_count [OF argv_defaults sign_in_example]
    by (simp add: stage_examples)
  have c: "count_list (fst (main example_site marketing_argv)) SignOut = 0"
    using main_sign_out_count [OF argv_marketing sign_in_example]
    by (simp add: stage_examples)
  from a b c show ?thesis by (intro conjI)
qed

section \<open>The number of pages\<close>

declare bit_length.simps [simp del]

lemma bit_length_pos: "0 < n \<Longrightarrow> 0 < bit_length n"
  by (subst bit_length.simps) simp

lemma bit_length_bounds: "0 < n \<Longrightarrow> 2 ^ (bit_length n - 1) \<le> n \<and> n < 2 ^ bit_length n"
proof (induction n rule: bit_length.induct)
  case (1 n)
  show ?case
  proof (cases "n div 2 = 0")
    case True
    with 1 have n: "n = Suc 0" by (simp add: div_eq_0_iff)
    have "bit_length (Suc 0) = Suc 0"
      by (simp add: bit_length.simps [of "Suc 0"] bit_length.simps [of 0])
    then show ?thesis unfolding n by simp
  next
    case False
    then have pos: "0 < n div 2" by simp
    with 1 have ih: "2 ^ (bit_length (n div 2) - 1) \<le> n div 2" "n div 2 < 2 ^ bit_length (n div 2)"
      by simp_all
    have bl: "bit_length n = Suc (bit_length (n div 2))"
      using 1(2) by (subst bit_length.simps) simp
    have p: "0 < bit_length (n div 2)" using pos by (rule bit_length_pos)
    then have e: "(2::nat) ^ bit_length (n div 2) = 2 * 2 ^ (bit_length (n div 2) - 1)"
      by (cases "bit_length (n div 2)") simp_all
    have a: "2 ^ (bit_length n - 1) \<le> n"
      unfolding bl using ih(1) e by simp
    have b: "n < 2 ^ bit_length n"
      unfolding bl using ih(2) by simp
    from a b show ?thesis by (rule conjI)
  qed
qed

lemma bit_length_eqI:
  assumes "2 ^ (k - 1) \<le> n" and "n < 2 ^ k" and "0 < k"
  shows "bit_length n = k"
proof -
  have n: "0 < n" using assms(1) by (cases n) simp_all
  note b = bit_length_bounds [OF n]
  have "bit_length n - 1 < k"
    using b assms(2) by (meson le_less_trans power_less_imp_less_exp one_less_numeral_iff semiring_norm(76))
  moreover have "k - 1 < bit_length n"
    using b assms(1) by (meson le_less_trans power_less_imp_less_exp one_less_numeral_iff semiring_norm(76))
  ultimately show ?thesis using assms(3) bit_length_pos [OF n] by linarith
qed

lemma bit_length_100: "bit_length 100 = 7"
  by (rule bit_length_eqI) simp_all

lemma bit_length_big: "bit_length 14073748835532801 = 54"
  by (rule bit_length_eqI) simp_all

lemma bit_length_101: "bit_length 101 = 7"
  by (rule bit_length_eqI) simp_all

lemma bit_length_250: "bit_length 250 = 8"
  by (rule bit_length_eqI) simp_all

lemmas divide_eval = max_page_of_def int_true_divide_def floor_log2_def round_half_even_def
  math_ceil_def Let_def

text \<open>
  C2: the page count is \<open>math.ceil\<close> of a floating-point quotient. For a total of
  14073748835532801 projects the quotient 140737488355328.01 is rounded to the double
  140737488355328.0 (doubles of this size are 1/32 apart), so \<open>max_page\<close> is
  140737488355328, one less than the ceiling 140737488355329 of the exact quotient: the
  last page is not fetched.
\<close>

theorem max_page_misses_last_page:
  "max_page_of 14073748835532801 100 = Inr 140737488355328
   \<and> - ((- 14073748835532801) div 100) = (140737488355329 :: int)"
  by (simp add: divide_eval bit_length_100 bit_length_big)

text \<open>The example of the specification: 250 projects give three pages.\<close>

lemma max_page_250: "max_page_of 250 100 = Inr 3"
  by (simp add: divide_eval bit_length_100 bit_length_250)


text \<open>
  Up to 14073748835532800 projects (that is \<open>100 * 2 ^ 47\<close>) the rounding does no
  harm: the page count is the ceiling of the exact quotient.
\<close>

lemma neg_div_ceil:
  fixes m k P :: int
  assumes "0 < P" and "k * P < m" and "m \<le> k * P + P"
  shows "- ((- m) div P) = k + 1"
proof -
  have "(- m) div P = - (k + 1)"
  proof (rule int_div_pos_eq)
    show "- m = P * - (k + 1) + ((k + 1) * P - m)" by (simp add: algebra_simps)
    show "0 \<le> (k + 1) * P - m" using assms(3) by (simp add: algebra_simps)
    show "(k + 1) * P - m < P" using assms(2) by (simp add: algebra_simps)
  qed
  then show ?thesis by simp
qed

lemma neg_div_exact:
  fixes k P :: int
  assumes "0 < P"
  shows "- ((- (k * P)) div P) = k"
proof -
  have "(- (k * P)) div P = - k"
    using assms by (metis minus_mult_left nonzero_mult_div_cancel_right less_irrefl)
  then show ?thesis by simp
qed

lemma round_half_even_multiple:
  fixes j d :: int
  assumes "0 < d"
  shows "round_half_even (d * j) d = j"
  using assms by (simp add: round_half_even_def)

lemma round_half_even_shift:
  fixes x d j :: int
  assumes "0 < d" and "even j"
  shows "round_half_even (d * j + x) d = j + round_half_even x d"
proof -
  have d: "(d * j + x) div d = j + x div d"
    using assms(1) by (simp add: div_mult_self4)
  have m: "(d * j + x) mod d = x mod d"
    by (simp add: mod_mult_self4)
  show ?thesis
    unfolding round_half_even_def d m Let_def using assms(2) by simp
qed

lemma round_half_even_fraction:
  fixes x d :: int
  assumes "0 < d" and "d < 2 * x" and "x < d"
  shows "round_half_even x d = 1"
proof -
  have "x div d = 0" "x mod d = x" using assms by simp_all
  then show ?thesis unfolding round_half_even_def Let_def using assms by simp
qed

lemma round_half_even_bounds:
  fixes x d :: int
  assumes "0 < d" and "0 \<le> x"
  shows "x div d \<le> round_half_even x d" and "round_half_even x d \<le> x div d + 1"
  unfolding round_half_even_def Let_def by simp_all

lemma ceil_of_rounded:
  fixes a :: int
  assumes "0 \<le> a" and "a mod 100 = 0 \<or> 6 \<le> s"
  shows "- ((- round_half_even (a * 2 ^ s) 100) div 2 ^ s) = - ((- a) div 100)"
proof -
  define k where "k = a div 100"
  define r where "r = a mod 100"
  define P :: int where "P = 2 ^ s"
  have a: "a = 100 * k + r" by (simp add: k_def r_def)
  have r: "0 \<le> r" "r < 100" by (simp_all add: r_def)
  have P: "0 < P" by (simp add: P_def)
  show ?thesis
  proof (cases "r = 0")
    case True
    then have "round_half_even (a * P) 100 = round_half_even (100 * (k * P)) 100"
      by (simp add: a mult.assoc)
    also have "\<dots> = k * P"
      by (rule round_half_even_multiple) simp
    finally have "round_half_even (a * P) 100 = k * P" .
    moreover have "- ((- a) div 100) = k"
      using True a neg_div_exact [of 100 k] by (simp add: mult.commute)
    ultimately show ?thesis
      using neg_div_exact [OF P, of k] by (simp add: P_def)
  next
    case False
    with assms(2) have s: "6 \<le> s" by (simp add: r_def)
    have r1: "1 \<le> r" using False r by simp
    have "(2::int) ^ 6 \<le> 2 ^ s" using s by (rule power_increasing) simp
    then have P64: "64 \<le> P" by (simp add: P_def)
    have "even P" using s by (simp add: P_def)
    then have ev: "even (k * P)" by simp
    have "a * P = 100 * (k * P) + r * P" by (simp add: a algebra_simps)
    then have m: "round_half_even (a * P) 100 = k * P + round_half_even (r * P) 100"
      using round_half_even_shift [of 100 "k * P" "r * P"] ev by simp
    have rP: "0 \<le> r * P" using r P by simp
    have "r * P \<le> 99 * P" using r P by simp
    then have "r * P < 100 * P" using P by linarith
    then have q: "(r * P) div 100 < P"
      by linarith
    have up: "round_half_even (r * P) 100 \<le> P"
      using round_half_even_bounds(2) [of 100 "r * P"] rP q by linarith
    have lo: "1 \<le> round_half_even (r * P) 100"
    proof (cases "r * P < 100")
      case True
      have "64 \<le> r * P" using mult_mono [of 1 r 64 P] r1 P64 by simp
      then have "100 < 2 * (r * P)" by linarith
      then have "round_half_even (r * P) 100 = 1"
        using True by (intro round_half_even_fraction) simp_all
      then show ?thesis by simp
    next
      case False
      then have "1 \<le> (r * P) div 100" by linarith
      then show ?thesis using round_half_even_bounds(1) [of 100 "r * P"] rP by linarith
    qed
    have "- ((- round_half_even (a * P) 100) div P) = k + 1"
      using P lo up unfolding m by (intro neg_div_ceil) simp_all
    moreover have "- ((- a) div 100) = k + 1"
      using r1 r unfolding a by (intro neg_div_ceil) simp_all
    ultimately show ?thesis by (simp add: P_def)
  qed
qed


lemma floor_log2_ge:
  "int (bit_length n) - int (bit_length d) - 1 \<le> floor_log2 n d"
  by (simp add: floor_log2_def Let_def)

lemma floor_log2_lower:
  assumes "0 < n" and "0 < d"
  shows "d * 2 ^ nat (floor_log2 n d) \<le> n * 2 ^ nat (- floor_log2 n d)"
proof -
  define k where "k = int (bit_length n) - int (bit_length d)"
  show ?thesis
  proof (cases "d * 2 ^ nat k \<le> n * 2 ^ nat (- k)")
    case True
    then have "floor_log2 n d = k" by (simp add: floor_log2_def k_def Let_def)
    with True show ?thesis by simp
  next
    case False
    then have fl: "floor_log2 n d = k - 1" by (simp add: floor_log2_def k_def Let_def)
    note bn = bit_length_bounds [OF assms(1)]
    note bd = bit_length_bounds [OF assms(2)]
    have pn: "0 < bit_length n" using assms(1) by (rule bit_length_pos)
    have pd: "0 < bit_length d" using assms(2) by (rule bit_length_pos)
    show ?thesis
    proof (cases "1 \<le> k")
      case True
      then have lt: "bit_length d < bit_length n" by (simp add: k_def)
      have e: "nat (k - 1) = bit_length n - 1 - bit_length d" "nat (- (k - 1)) = 0"
        using True by (simp_all add: k_def)
      have "d * 2 ^ (bit_length n - 1 - bit_length d)
              \<le> 2 ^ bit_length d * 2 ^ (bit_length n - 1 - bit_length d)"
        using bd by (simp add: less_imp_le)
      also have "\<dots> = 2 ^ (bit_length n - 1)"
        using lt by (simp add: power_add [symmetric])
      also have "\<dots> \<le> n" using bn by simp
      finally show ?thesis unfolding fl e by simp
    next
      case False
      then have le: "bit_length n \<le> bit_length d" by (simp add: k_def)
      have e: "nat (k - 1) = 0" "nat (- (k - 1)) = bit_length d - bit_length n + 1"
        using False by (simp_all add: k_def)
      have "d \<le> 2 ^ bit_length d" using bd by (simp add: less_imp_le)
      also have "\<dots> = 2 ^ (bit_length n - 1) * 2 ^ (bit_length d - bit_length n + 1)"
      proof -
        have "(bit_length n - 1) + (bit_length d - bit_length n + 1) = bit_length d"
          using le pn by simp
        then have "(2::nat) ^ bit_length d
            = 2 ^ ((bit_length n - 1) + (bit_length d - bit_length n + 1))"
          by (simp only:)
        then show ?thesis by (simp only: power_add)
      qed
      also have "\<dots> \<le> n * 2 ^ (bit_length d - bit_length n + 1)"
        using bn by (simp add: mult_le_mono1)
      finally show ?thesis unfolding fl e by simp
    qed
  qed
qed

lemma max_page_of_exact:
  assumes "0 \<le> total_projects" and "total_projects \<le> 14073748835532800"
  shows "max_page_of total_projects 100 = Inr (- ((- total_projects) div 100))"
proof (cases "total_projects = 0")
  case True
  then show ?thesis by (simp add: divide_eval)
next
  case False
  with assms(1) have pos: "0 < total_projects" by simp
  define n where "n = nat total_projects"
  define fl where "fl = floor_log2 n 100"
  define s where "s = nat (52 - fl)"
  have n: "0 < n" "int n = total_projects" "n \<le> 14073748835532800"
    using pos assms(2) by (simp_all add: n_def)
  have "0 < bit_length n" using n(1) by (rule bit_length_pos)
  then have lo: "- 7 \<le> fl"
    using floor_log2_ge [of n 100] by (simp add: fl_def bit_length_100)
  have low: "100 * 2 ^ nat fl \<le> n * 2 ^ nat (- fl)"
    unfolding fl_def using n(1) by (intro floor_log2_lower) simp_all
  have up: "fl \<le> 47"
  proof (rule ccontr)
    assume "\<not> fl \<le> 47"
    then have f: "48 \<le> nat fl" "nat (- fl) = 0" by simp_all
    have "(2::nat) ^ 48 \<le> 2 ^ nat fl" using f(1) by (rule power_increasing) simp
    then have "100 * (2::nat) ^ 48 \<le> 100 * 2 ^ nat fl" by simp
    with low f(2) have "100 * (2::nat) ^ 48 \<le> n" by simp
    with n(3) show False by simp
  qed
  have tight: "total_projects mod 100 = 0 \<or> 6 \<le> s"
  proof (cases "fl = 47")
    case True
    with low have "100 * (2::nat) ^ 47 \<le> n" by simp
    with n(3) have "n = 14073748835532800" by simp
    then have "total_projects = 14073748835532800" using n(2) by simp
    then show ?thesis by simp
  next
    case False
    with up have "fl \<le> 46" by simp
    then have "6 \<le> 52 - fl" by simp
    then have "6 \<le> s" unfolding s_def by (simp only: nat_le_iff of_nat_numeral)
    then show ?thesis by simp
  qed
  have e: "max (fl - 52) (- 1074) = fl - 52" using lo by simp
  have e0: "nat (fl - 52) = 0" "nat (- (fl - 52)) = s" "\<not> 0 \<le> fl - 52" "\<not> 971 < fl - 52"
    "fl - 52 \<noteq> 971"
    using up by (simp_all add: s_def)
  have a1: "nat \<bar>total_projects\<bar> = n" using pos by (simp add: n_def)
  have a2: "nat \<bar>100::int\<bar> = 100" by simp
  have a3: "sgn total_projects * sgn (100::int) = 1" using pos by simp
  have a4: "(100::int) \<noteq> 0" by simp
  have a5: "int 100 * 2 ^ 0 = (100::int)" by simp
  have itd: "int_true_divide total_projects 100
      = Inr (round_half_even (total_projects * 2 ^ s) 100, fl - 52)"
    by (simp only: int_true_divide_def Let_def a1 a2 a3 a4 a5 False fl_def [symmetric] e e0 n(2)
        if_False simp_thms mult_1)
  have "max_page_of total_projects 100
      = Inr (- ((- round_half_even (total_projects * 2 ^ s) 100) div 2 ^ s))"
    by (simp only: max_page_of_def itd and_then_Inr math_ceil_def prod.case e0 if_False)
  then show ?thesis
    using ceil_of_rounded [OF assms(1) tight] by simp
qed


text \<open>
  Within that range, against a server that announces the true total and answers page
  \<open>p\<close> with the \<open>p\<close>-th slice of 100 entities, the scanned list is the full
  list of entities.
\<close>

lemma concat_slices:
  "1 \<le> mp \<Longrightarrow>
   concat (map (\<lambda>p. take c (drop (c * nat (p - 1)) xs)) [1..mp]) = take (c * nat mp) xs"
proof (induction mp rule: int_ge_induct)
  case base
  show ?case by simp
next
  case (step i)
  have n: "nat (i + 1) = Suc (nat i)" "nat (i + 1 - 1) = nat i" using step.hyps by simp_all
  have "[1..i + 1] = [1..i] @ [i + 1]"
    using step.hyps upto_rec2 [of 1 "i + 1"] by simp
  then have "concat (map (\<lambda>p. take c (drop (c * nat (p - 1)) xs)) [1..i + 1])
      = take (c * nat i) xs @ take c (drop (c * nat i) xs)"
    using step.IH by (simp add: n)
  also have "\<dots> = take (c * nat i + c) xs"
    by (simp add: take_add)
  also have "c * nat i + c = c * nat (i + 1)"
    unfolding n by simp
  finally show ?case .
qed

lemma all_projects_complete:
  assumes "\<forall>p\<in>set [1..max 1 mp].
             fetch_xml w (paged_url (server @ lit ''/api/'' @ VERSION w @ lit ''/sites/''
               @ py_str site_id @ lit ''/projects'') 100 p) auth_token = Inr (page p)
             \<and> ET_findall (page p) (Descendant (lit ''project''))
                 = take 100 (drop (100 * nat (p - 1)) entities)"
      and "ET_find (page 1) (Child (lit ''pagination'')) = Some pg"
      and "py_int w (ET_get pg (lit ''totalAvailable'')) = Inr (int (length entities))"
      and "int (length entities) \<le> 14073748835532800"
      and "mp = - ((- int (length entities)) div 100)"
  shows "all_projects w server auth_token site_id = Inr entities"
proof -
  let ?u = "server @ lit ''/api/'' @ VERSION w @ lit ''/sites/'' @ py_str site_id
              @ lit ''/projects''"
  let ?slice = "\<lambda>p. take 100 (drop (100 * nat (p - 1)) entities)"
  have mp: "max_page_of (int (length entities)) 100 = Inr mp"
    unfolding assms(5) by (rule max_page_of_exact [OF _ assms(4)]) simp
  have one: "1 \<in> set [1..max 1 mp]" by simp
  have f1: "fetch_xml w (paged_url ?u 100 1) auth_token = Inr (page 1)"
    using assms(1) one by blast
  have sub: "set [2..mp] \<subseteq> set [1..max 1 mp]" by auto
  have f2: "\<forall>p\<in>set [2..mp]. fetch_xml w (paged_url ?u 100 p) auth_token = Inr (page p)"
    using assms(1) sub by blast
  have sl: "\<forall>p\<in>set [2..mp]. ET_findall (page p) (Descendant (lit ''project'')) = ?slice p"
    using assms(1) sub by blast
  have s1: "ET_findall (page 1) (Descendant (lit ''project'')) = ?slice 1"
    using assms(1) one by blast
  have m: "map (\<lambda>p. ET_findall (page p) (Descendant (lit ''project''))) [2..mp]
         = map ?slice [2..mp]"
    using sl by (intro map_cong) simp_all
  have cover: "length entities \<le> 100 * nat (max 1 mp)"
    unfolding assms(5) by linarith
  have "all_projects w server auth_token site_id
      = Inr (?slice 1 @ concat (map ?slice [2..mp]))"
    unfolding all_projects_order [OF f1 assms(2) assms(3) mp f2] m s1 by simp
  also have "?slice 1 @ concat (map ?slice [2..mp]) = concat (map ?slice [1..max 1 mp])"
  proof (cases "1 \<le> mp")
    case True
    then have "[1..max 1 mp] = 1 # [2..mp]" by (simp add: upto_rec1)
    then show ?thesis by simp
  next
    case False
    then show ?thesis by simp
  qed
  also have "\<dots> = take (100 * nat (max 1 mp)) entities"
    by (rule concat_slices) simp
  also have "\<dots> = entities"
    using cover by simp
  finally show ?thesis .
qed

end
